theory Spec2Isabelle
  imports Main
begin

section \<open>Strings, errors and the data the handlers work on\<close>

text \<open>
  A Go string is a sequence of bytes, as is \<^typ>\<open>string\<close>. The message literals of the
  source are Korean text in UTF-8: each one is a named constant below, written as its
  bytes, with the source line and an English gloss. Literals that are plain ASCII are
  written in place.
\<close>

definition utf8 :: "nat list \<Rightarrow> string" where
  "utf8 bs = map char_of bs"

text \<open>\<open>strings.Join(elems, sep)\<close>.\<close>

fun Join :: "string list \<Rightarrow> string \<Rightarrow> string" where
  "Join [] sep = []"
| "Join [x] sep = x"
| "Join (x # y # ys) sep = x @ sep @ Join (y # ys) sep"

text \<open>
  A Go \<open>error\<close> value is an interface value: a dynamic type and the text its
  \<open>Error()\<close> method returns. \<open>nil\<close> is \<open>None\<close> of \<^typ>\<open>'a option\<close>, or the
  \<open>Inr\<close> side of a result. \<open>errors.New\<close> and \<open>fmt.Errorf\<close> (without \<open>%w\<close>) build
  an \<open>*errors.errorString\<close>.
\<close>

datatype error = GoError (errType: string) (Error: string)

definition errors_New :: "string \<Rightarrow> error" where
  "errors_New text = GoError ''*errors.errorString'' text"

text \<open>\<open>model.CommandArgs\<close> and \<open>model.User\<close>: the fields the handlers read.\<close>

record CommandArgs =
  UserId :: string
  ChannelId :: string
  Command :: string

record User =
  Id :: string
  Username :: string

text \<open>
  Modelled from the spec: the structs \<open>Issue\<close> and \<open>ExtendedIssue\<close> are declared in
  another file of the package. The spec's data model gives an issue an \<open>ID\<close>, a creation time, a
  \<open>Message\<close>, a \<open>Description\<close> and a \<open>PostID\<close>, and the extended issue the list, the
  position and the user of the counterpart. The handlers read \<open>ID\<close>, \<open>Message\<close> and
  \<open>PostID\<close> only.
\<close>

record Issue =
  ID :: string
  Message :: string
  Description :: string
  CreateAt :: int
  PostID :: string

record ExtendedIssue = Issue +
  ForeignUser :: string
  ForeignList :: string
  ForeignPosition :: int

text \<open>\<open>&ExtendedIssue{Issue: *newIssue}\<close>: the other fields are zero values.\<close>

definition ExtendedIssue_of :: "Issue \<Rightarrow> ExtendedIssue" where
  "ExtendedIssue_of i =
     \<lparr>ID = ID i, Message = Message i, Description = Description i, CreateAt = CreateAt i,
      PostID = PostID i, ForeignUser = [], ForeignList = [], ForeignPosition = 0\<rparr>"

subsection \<open>The string literals of the command handlers\<close>

definition listHeaderMessage :: string where
  "listHeaderMessage = '' Todo List:'' @ utf8 [10, 10]"

definition MyFlag :: string where "MyFlag = ''my''"
definition InFlag :: string where "InFlag = ''in''"
definition OutFlag :: string where "OutFlag = ''out''"

text \<open>Line 20, \<open>getHelp\<close>: the help text (a raw string literal listing the supported
  commands: add, list, pop, send, settings, help).\<close>

definition getHelp :: "string" where
  "getHelp =
     utf8 [236, 167, 128, 236, 155, 144, 235, 144, 152, 235, 138, 148, 32, 235, 170, 133, 235,
       160, 185, 236, 150, 180, 58, 10, 10, 97, 100, 100, 32, 91, 235, 169, 148, 236, 139, 156,
       236, 167, 128, 93, 10, 9, 84, 111, 100, 111, 235, 165, 188, 32, 236, 182, 148, 234, 176,
       128, 237, 149, 169, 235, 139, 136, 235, 139, 164, 46, 10, 10, 9, 236, 152, 136]
       @ '': /todo add '' @ utf8 [237, 154, 140, 236, 157, 152, 235, 161, 157, 32, 236, 158,
       145, 236, 132, 177, 32, 235, 176, 143, 32, 235, 176, 176, 237, 143, 172, 10, 10, 108,
       105, 115, 116, 10, 9, 235, 130, 180, 32, 84, 111, 100, 111, 32, 235, 170, 169, 235, 161,
       157, 236, 157, 132, 32, 235, 180, 133, 235, 139, 136, 235, 139, 164, 46, 10, 10]
       @ ''list [listName]'' @ utf8 [10, 9, 237, 138, 185, 236, 160, 149, 32, 235, 170, 169,
       235, 161, 157, 236, 157, 132, 32, 236, 161, 176, 237, 154, 140, 237, 149, 169, 235, 139,
       136, 235, 139, 164, 10, 10, 9, 236, 152, 136] @ '': /todo list in'' @ utf8 [10, 9, 236,
       152, 136] @ '': /todo list out'' @ utf8 [10, 9, 236, 152, 136]
       @ '': /todo list my (/todo list'' @ utf8 [236, 153, 128, 32, 235, 143, 153, 236, 157,
       188, 41, 10, 10, 112, 111, 112, 10, 9, 84, 111, 100, 111, 32, 235, 170, 169, 235, 161,
       157, 236, 157, 152, 32, 235, 167, 168, 32, 236, 131, 129, 235, 139, 168, 32, 237, 149,
       173, 235, 170, 169, 236, 157, 132, 32, 236, 160, 156, 234, 177, 176, 237, 149, 169, 235,
       139, 136, 235, 139, 164, 46, 10, 10] @ ''send [user] [message]'' @ utf8 [10, 9, 91, 117,
       115, 101, 114, 93, 236, 151, 144, 234, 178, 140, 32, 84, 111, 100, 111, 235, 165, 188,
       32, 235, 179, 180, 235, 131, 133, 235, 139, 136, 235, 139, 164, 46, 10, 10, 9, 236, 152,
       136] @ '': /todo send @someone '' @ utf8 [236, 186, 152, 235, 166, 176, 235, 141, 148,
       236, 151, 144, 32, 237, 154, 140, 236, 157, 152, 32, 234, 179, 181, 236, 167, 128, 237,
       149, 180, 236, 163, 188, 236, 132, 184, 236, 154, 148, 32, 10, 10]
       @ ''settings summary [on, off]'' @ utf8 [10, 9, 236, 157, 188, 236, 157, 188, 32, 235,
       166, 172, 235, 167, 136, 236, 157, 184, 235, 141, 148, 236, 151, 144, 32, 235, 140, 128,
       237, 149, 156, 32, 236, 130, 172, 236, 154, 169, 236, 158, 144, 32, 236, 132, 164, 236,
       160, 149, 236, 157, 132, 32, 236, 167, 128, 236, 160, 149, 237, 149, 169, 235, 139, 136,
       235, 139, 164, 10, 10, 9, 236, 152, 136] @ '': /todo settings summary on'' @ utf8 [10,
       10] @ ''settings allow_incoming_task_requests [on, off]'' @ utf8 [10, 9, 235, 139, 164,
       235, 165, 184, 32, 236, 130, 172, 236, 154, 169, 236, 158, 144, 236, 157, 152]
       @ '' Todo Task '' @ utf8 [235, 179, 180, 235, 130, 180, 234, 184, 176, 32, 236, 136,
       152, 235, 157, 189, 32, 236, 151, 172, 235, 182, 128, 235, 165, 188, 32, 236, 132, 164,
       236, 160, 149, 237, 149, 169, 235, 139, 136, 235, 139, 164, 10, 10, 9, 236, 152, 136]
       @ '': /todo settings allow_incoming_task_requests on'' @ utf8 [10, 10, 10, 104, 101,
       108, 112, 10, 9, 236, 130, 172, 236, 154, 169, 235, 178, 149, 236, 157, 132, 32, 235,
       179, 180, 236, 151, 172, 236, 164, 141, 235, 139, 136, 235, 139, 164, 46, 10]"

text \<open>Line 146: the reply to a user error, \<open>"__Error: %s.__"\<close> followed by two
  newlines and the hint "run `/todo help` to see the usage".\<close>

definition userErrorText :: "string \<Rightarrow> string" where
  "userErrorText e =
     ''__Error: '' @ e @ utf8 [46, 95, 95, 10, 10, 236, 130, 172, 236, 154, 169, 235, 178, 149,
       236, 157, 132, 32, 235, 179, 180, 235, 160, 164, 235, 169, 180, 32, 96] @ ''/todo help''
       @ utf8 [96, 235, 165, 188, 32, 236, 139, 164, 237, 150, 137, 237, 149, 152, 236, 132,
       184, 236, 154, 148, 46]"

text \<open>Line 149: "An unknown error occurred. Ask your system administrator for help."\<close>

definition txtUnknownError :: "string" where
  "txtUnknownError =
     utf8 [236, 149, 140, 32, 236, 136, 152, 32, 236, 151, 134, 235, 138, 148, 32, 236, 152,
       164, 235, 165, 152, 234, 176, 128, 32, 235, 176, 156, 236, 131, 157, 237, 150, 136, 236,
       138, 181, 235, 139, 136, 235, 139, 164, 46, 32, 236, 139, 156, 236, 138, 164, 237, 133,
       156, 32, 234, 180, 128, 235, 166, 172, 236, 158, 144, 236, 151, 144, 234, 178, 140, 32,
       235, 143, 132, 236, 155, 128, 236, 157, 132, 32, 236, 154, 148, 236, 178, 173, 237, 149,
       152, 236, 132, 184, 236, 154, 148, 46]"

text \<open>Line 158: "You must specify a valid user and a message." and a newline.\<close>

definition txtSendNeedsUserAndMessage :: "string" where
  "txtSendNeedsUserAndMessage =
     utf8 [235, 176, 152, 235, 147, 156, 236, 139, 156, 32, 236, 156, 160, 237, 154, 168, 237,
       149, 156, 32, 236, 130, 172, 236, 154, 169, 236, 158, 144, 236, 153, 128, 32, 235, 169,
       148, 236, 139, 156, 236, 167, 128, 235, 165, 188, 32, 236, 167, 128, 236, 160, 149, 237,
       149, 180, 236, 149, 188, 237, 149, 169, 235, 139, 136, 235, 139, 164, 46, 10]"

text \<open>Line 168: "Specify a valid user." and a newline.\<close>

definition txtSendInvalidUser :: "string" where
  "txtSendInvalidUser =
     utf8 [236, 156, 160, 237, 154, 168, 237, 149, 156, 32, 236, 130, 172, 236, 154, 169, 236,
       158, 144, 235, 165, 188, 32, 236, 167, 128, 236, 160, 149, 237, 149, 152, 236, 132, 184,
       236, 154, 148, 46, 10]"

text \<open>Lines 178 and 339: "An error occurred while checking the allow-incoming-task-requests
  setting, err=".\<close>

definition txtPrefCheckFailed :: "string" where
  "txtPrefCheckFailed =
     utf8 [235, 147, 164, 236, 150, 180, 236, 152, 164, 235, 138, 148, 32, 84, 97, 115, 107,
       32, 236, 154, 148, 236, 178, 173, 32, 237, 151, 136, 236, 154, 169, 236, 151, 144, 32,
       235, 140, 128, 237, 149, 156, 32, 236, 132, 164, 236, 160, 149, 32, 237, 153, 149, 236,
       157, 184, 32, 236, 139, 156, 32, 236, 152, 164, 235, 165, 152, 234, 176, 128, 32, 235,
       176, 156, 236, 131, 157, 237, 150, 136, 236, 138, 181, 235, 139, 136, 235, 139, 164, 44,
       32, 101, 114, 114, 61]"

text \<open>Line 182: "@%s is blocking Todo requests".\<close>

definition fmtReceiverBlocking :: "string \<Rightarrow> string" where
  "fmtReceiverBlocking userName =
     ''@'' @ userName @ utf8 [236, 157, 128, 40, 235, 138, 148, 41, 32, 84, 111, 100, 111, 32,
       236, 154, 148, 236, 178, 173, 236, 157, 132, 32, 236, 176, 168, 235, 139, 168, 32, 236,
       164, 145, 236, 158, 133, 235, 139, 136, 235, 139, 164]"

text \<open>Line 198: "Sent the Todo to @%s."\<close>

definition fmtSentTo :: "string \<Rightarrow> string" where
  "fmtSentTo userName =
     ''@'' @ userName @ utf8 [236, 151, 144, 234, 178, 140, 32, 84, 111, 100, 111, 235, 165,
       188, 32, 235, 179, 180, 235, 131, 136, 236, 138, 181, 235, 139, 136, 235, 139, 164, 46]"

text \<open>Line 202: "Received a new Todo request from @%s".\<close>

definition fmtReceivedRequestFrom :: "string \<Rightarrow> string" where
  "fmtReceivedRequestFrom senderName =
     ''@'' @ senderName @ utf8 [40, 236, 156, 188, 41, 235, 161, 156, 235, 182, 128, 237, 132,
       176, 32, 236, 131, 136, 32, 84, 111, 100, 111, 32, 236, 154, 148, 236, 178, 173, 236,
       157, 132, 32, 235, 176, 155, 236, 149, 152, 236, 138, 181, 235, 139, 136, 235, 139, 164]"

text \<open>Line 213: "Please add a task."\<close>

definition txtAddATask :: "string" where
  "txtAddATask =
     utf8 [84, 97, 115, 107, 235, 165, 188, 32, 236, 182, 148, 234, 176, 128, 237, 149, 152,
       236, 132, 184, 236, 154, 148, 46]"

text \<open>Line 226: "The Todo was added."\<close>

definition txtTodoAdded :: "string" where
  "txtTodoAdded =
     utf8 [84, 111, 100, 111, 234, 176, 128, 32, 236, 182, 148, 234, 176, 128, 235, 144, 152,
       236, 151, 136, 236, 138, 181, 235, 139, 136, 235, 139, 164, 46]"

text \<open>Lines 260, 267, 270: the headers "Todo list:", "Received Todo list:", "Sent Todo list:",
  each followed by two newlines.\<close>

definition txtMyListHeader :: "string" where
  "txtMyListHeader =
     utf8 [84, 111, 100, 111, 32, 235, 170, 169, 235, 161, 157, 58, 10, 10]"

definition txtInListHeader :: "string" where
  "txtInListHeader =
     utf8 [235, 176, 155, 236, 157, 128, 32, 84, 111, 100, 111, 32, 235, 170, 169, 235, 161,
       157, 58, 10, 10]"

definition txtOutListHeader :: "string" where
  "txtOutListHeader =
     utf8 [235, 179, 180, 235, 130, 184, 32, 84, 111, 100, 111, 32, 235, 170, 169, 235, 161,
       157, 58, 10, 10]"

text \<open>Line 294: "There is no Todo to remove."\<close>

definition txtNothingToPop :: "string" where
  "txtNothingToPop =
     utf8 [236, 160, 156, 234, 177, 176, 237, 149, 160, 32, 84, 111, 100, 111, 234, 176, 128,
       32, 236, 151, 134, 236, 138, 181, 235, 139, 136, 235, 139, 164, 46]"

text \<open>Line 305: "@%s deleted the Todo I sent: %s".\<close>

definition fmtPoppedSentTodo :: "string \<Rightarrow> string \<Rightarrow> string" where
  "fmtPoppedSentTodo userName message =
     ''@'' @ userName @ utf8 [236, 157, 180, 40, 234, 176, 128, 41, 32, 235, 130, 180, 234,
       176, 128, 32, 235, 179, 180, 235, 130, 184, 32, 84, 111, 100, 111, 235, 165, 188, 32,
       236, 130, 173, 236, 160, 156, 237, 150, 136, 236, 138, 181, 235, 139, 136, 235, 139,
       164, 58, 32] @ message"

text \<open>Line 311: "Removed the Todo item at the top."\<close>

definition txtPoppedTop :: "string" where
  "txtPoppedTop =
     utf8 [235, 167, 168, 32, 236, 156, 132, 236, 151, 144, 32, 236, 158, 136, 235, 138, 148,
       32, 84, 111, 100, 111, 32, 237, 149, 173, 235, 170, 169, 236, 157, 132, 32, 236, 160,
       156, 234, 177, 176, 237, 150, 136, 236, 138, 181, 235, 139, 136, 235, 139, 164, 46]"

text \<open>Line 313: "@%s removed the top Todo item attached to this thread".\<close>

definition fmtPoppedThreadReply :: "string \<Rightarrow> string" where
  "fmtPoppedThreadReply userName =
     ''@'' @ userName @ utf8 [236, 157, 180, 40, 234, 176, 128, 41, 32, 236, 157, 180, 32, 236,
       138, 164, 235, 160, 136, 235, 147, 156, 236, 151, 144, 32, 236, 178, 168, 235, 182, 128,
       235, 144, 156, 32, 84, 111, 100, 111, 32, 235, 167, 168, 32, 236, 156, 132, 32, 237,
       149, 173, 235, 170, 169, 236, 157, 132, 32, 236, 160, 156, 234, 177, 176, 237, 150, 136,
       236, 138, 181, 235, 139, 136, 235, 139, 164]"

text \<open>Lines 64 and 66: "Reminder set to `on`/`off`" and whether daily reminders will be received.\<close>

definition summarySettingOn :: "string" where
  "summarySettingOn =
     utf8 [235, 166, 172, 235, 167, 136, 236, 157, 184, 235, 141, 148, 235, 165, 188, 32, 96,
       111, 110, 96, 236, 156, 188, 235, 161, 156, 32, 236, 132, 164, 236, 160, 149, 237, 150,
       136, 236, 138, 181, 235, 139, 136, 235, 139, 164, 46, 32, 42, 42, 236, 157, 188, 236,
       157, 188, 32, 235, 166, 172, 235, 167, 136, 236, 157, 184, 235, 141, 148, 235, 165, 188,
       32, 236, 136, 152, 236, 139, 160, 237, 149, 152, 234, 178, 140, 32, 235, 144, 169, 235,
       139, 136, 235, 139, 164, 46, 42, 42]"

definition summarySettingOff :: "string" where
  "summarySettingOff =
     utf8 [235, 166, 172, 235, 167, 136, 236, 157, 184, 235, 141, 148, 235, 165, 188, 32, 96,
       111, 102, 102, 96, 235, 161, 156, 32, 236, 132, 164, 236, 160, 149, 237, 150, 136, 236,
       138, 181, 235, 139, 136, 235, 139, 164, 46, 32, 42, 42, 236, 157, 188, 236, 157, 188,
       32, 235, 166, 172, 235, 167, 136, 236, 157, 184, 235, 141, 148, 235, 165, 188, 32, 236,
       136, 152, 236, 139, 160, 237, 149, 152, 236, 167, 128, 32, 236, 149, 138, 236, 138, 181,
       235, 139, 136, 235, 139, 164, 46, 42, 42]"

text \<open>Lines 70 and 72: "Allow incoming task requests set to `on`/`off`" and what that means for
  other users.\<close>

definition allowIncomingSettingOn :: "string" where
  "allowIncomingSettingOn =
     utf8 [235, 147, 164, 236, 150, 180, 236, 152, 164, 235, 138, 148, 32, 84, 97, 115, 107,
       32, 236, 154, 148, 236, 178, 173, 32, 237, 151, 136, 236, 154, 169, 236, 157, 132, 32,
       96, 111, 110, 96, 236, 156, 188, 235, 161, 156, 32, 236, 132, 164, 236, 160, 149, 237,
       150, 136, 236, 138, 181, 235, 139, 136, 235, 139, 164, 46, 32, 42, 42, 235, 139, 164,
       235, 165, 184, 32, 236, 130, 172, 236, 154, 169, 236, 158, 144, 234, 176, 128, 32, 84,
       97, 115, 107, 32, 236, 154, 148, 236, 178, 173, 236, 157, 132, 32, 235, 179, 180, 235,
       130, 188, 32, 236, 136, 152, 32, 236, 158, 136, 236, 138, 181, 235, 139, 136, 235, 139,
       164, 46, 32, 235, 176, 155, 236, 157, 128, 32, 236, 154, 148, 236, 178, 173, 236, 157,
       132, 32, 236, 136, 152, 235, 157, 189, 47, 234, 177, 176, 235, 182, 128, 32, 237, 149,
       160, 32, 236, 136, 152, 32, 236, 158, 136, 236, 138, 181, 235, 139, 136, 235, 139, 164,
       46, 42, 42]"

definition allowIncomingSettingOff :: "string" where
  "allowIncomingSettingOff =
     utf8 [235, 147, 164, 236, 150, 180, 236, 152, 164, 235, 138, 148, 32, 84, 97, 115, 107,
       32, 236, 154, 148, 236, 178, 173, 32, 237, 151, 136, 236, 154, 169, 236, 157, 132, 32,
       96, 111, 102, 102, 96, 235, 161, 156, 32, 236, 132, 164, 236, 160, 149, 237, 150, 136,
       236, 138, 181, 235, 139, 136, 235, 139, 164, 46, 32, 42, 42, 235, 139, 164, 235, 165,
       184, 32, 236, 130, 172, 236, 154, 169, 236, 158, 144, 234, 176, 128, 32, 84, 97, 115,
       107, 32, 236, 154, 148, 236, 178, 173, 236, 157, 132, 32, 235, 179, 180, 235, 130, 188,
       32, 236, 136, 152, 32, 236, 151, 134, 236, 138, 181, 235, 139, 136, 235, 139, 164, 46,
       32, 235, 139, 164, 235, 165, 184, 32, 236, 130, 172, 236, 154, 169, 236, 158, 144, 236,
       151, 144, 234, 178, 140, 235, 138, 148, 32, 235, 130, 180, 234, 176, 128, 32, 84, 97,
       115, 107, 32, 236, 154, 148, 236, 178, 173, 236, 157, 132, 32, 236, 160, 145, 236, 136,
       152, 32, 234, 177, 176, 235, 182, 128, 237, 150, 136, 235, 139, 164, 235, 138, 148, 32,
       235, 169, 148, 236, 139, 156, 236, 167, 128, 235, 165, 188, 32, 235, 176, 155, 234, 178,
       140, 235, 144, 169, 235, 139, 136, 235, 139, 164, 42, 42]"

text \<open>Lines 76-80: "Current settings:", a blank line, the two settings on a line each, and a final
  newline and tab.\<close>

definition fmtAllSettings :: "string \<Rightarrow> string \<Rightarrow> string" where
  "fmtAllSettings a b =
     utf8 [237, 152, 132, 236, 158, 172, 32, 236, 132, 164, 236, 160, 149, 58, 10, 10] @ a
       @ utf8 [10] @ b @ utf8 [10, 9]"

text \<open>Lines 354 and 391: "too many arguments".\<close>

definition txtTooManyArgs :: "string" where
  "txtTooManyArgs =
     utf8 [235, 132, 136, 235, 172, 180, 32, 235, 167, 142, 236, 157, 128, 32, 236, 157, 184,
       236, 136, 152, 235, 147, 164, 236, 158, 133, 235, 139, 136, 235, 139, 164]"

text \<open>Lines 363, 366: "From now on you will (not) receive the daily summary."\<close>

definition txtSummaryNowOn :: "string" where
  "txtSummaryNowOn =
     utf8 [236, 157, 180, 236, 160, 156, 235, 182, 128, 237, 132, 176, 32, 236, 157, 188, 236,
       157, 188, 32, 236, 154, 148, 236, 149, 189, 236, 157, 132, 32, 236, 136, 152, 236, 139,
       160, 237, 149, 169, 235, 139, 136, 235, 139, 164, 46]"

definition txtSummaryNowOff :: "string" where
  "txtSummaryNowOff =
     utf8 [236, 157, 180, 236, 160, 156, 235, 182, 128, 237, 132, 176, 32, 236, 157, 188, 236,
       157, 188, 32, 236, 154, 148, 236, 149, 189, 236, 157, 132, 32, 236, 136, 152, 236, 139,
       160, 237, 149, 152, 236, 167, 128, 32, 236, 149, 138, 236, 138, 181, 235, 139, 136, 235,
       139, 164, 46]"

text \<open>Line 368: "Invalid input value. The values allowed for "settings summary" are `on` or
  `off`".\<close>

definition txtSummaryInvalid :: "string" where
  "txtSummaryInvalid =
     utf8 [236, 156, 160, 237, 154, 168, 237, 149, 152, 236, 167, 128, 32, 236, 149, 138, 236,
       157, 128, 32, 236, 158, 133, 235, 160, 165, 32, 234, 176, 146, 236, 158, 133, 235, 139,
       136, 235, 139, 164, 46, 32, 34] @ ''settings summary'' @ utf8 [34, 236, 151, 144, 32,
       237, 151, 136, 236, 154, 169, 235, 144, 152, 235, 138, 148, 32, 234, 176, 146, 236, 157,
       128, 32, 96, 111, 110, 96, 32, 235, 152, 144, 235, 138, 148, 32, 96, 111, 102, 102, 96,
       236, 158, 133, 235, 139, 136, 235, 139, 164]"

text \<open>Lines 373, 374: "Error saving the reminder setting", and the same after the prefix
  "runSettingsCommand: ".\<close>

definition txtSummarySaveError :: "string" where
  "txtSummarySaveError =
     utf8 [235, 166, 172, 235, 167, 136, 236, 157, 184, 235, 141, 148, 32, 236, 132, 164, 236,
       160, 149, 32, 236, 160, 128, 236, 158, 165, 32, 236, 152, 164, 235, 165, 152, 236, 158,
       133, 235, 139, 136, 235, 139, 164]"

definition txtSummarySaveErrorLog :: "string" where
  "txtSummarySaveErrorLog =
     ''runSettingsCommand: '' @ utf8 [235, 166, 172, 235, 167, 136, 236, 157, 184, 235, 141,
       148, 32, 236, 132, 164, 236, 160, 149, 32, 236, 160, 128, 236, 158, 165, 32, 236, 152,
       164, 235, 165, 152, 236, 158, 133, 235, 139, 136, 235, 139, 164]"

text \<open>Line 384: "Cannot read the setting for accepting incoming task requests, err=".\<close>

definition txtPrefReadFailed :: "string" where
  "txtPrefReadFailed =
     utf8 [235, 147, 164, 236, 150, 180, 236, 152, 164, 235, 138, 148, 32, 84, 97, 115, 107,
       32, 236, 154, 148, 236, 178, 173, 32, 236, 138, 185, 236, 157, 184, 236, 151, 144, 32,
       235, 140, 128, 237, 149, 156, 32, 236, 132, 164, 236, 160, 149, 236, 157, 132, 32, 236,
       157, 189, 236, 157, 132, 32, 236, 136, 152, 32, 236, 151, 134, 236, 138, 181, 235, 139,
       136, 235, 139, 164, 44, 32, 101, 114, 114, 61]"

text \<open>Lines 399, 402: "Other users can (cannot) send you task requests" and what follows from it.\<close>

definition txtAllowNowOn :: "string" where
  "txtAllowNowOn =
     utf8 [235, 139, 164, 235, 165, 184, 32, 236, 130, 172, 236, 154, 169, 236, 158, 144, 235,
       147, 164, 236, 157, 180, 32, 84, 97, 115, 107, 32, 236, 154, 148, 236, 178, 173, 236,
       157, 132, 32, 235, 179, 180, 235, 130, 188, 32, 236, 136, 152, 32, 236, 158, 136, 236,
       138, 181, 235, 139, 136, 235, 139, 164, 46, 32, 235, 176, 155, 236, 157, 128, 32, 236,
       154, 148, 236, 178, 173, 236, 157, 128, 32, 236, 136, 152, 235, 157, 189, 47, 234, 177,
       176, 235, 182, 128, 237, 149, 160, 32, 236, 136, 152, 32, 236, 158, 136, 236, 138, 181,
       235, 139, 136, 235, 139, 164]"

definition txtAllowNowOff :: "string" where
  "txtAllowNowOff =
     utf8 [235, 139, 164, 235, 165, 184, 32, 236, 130, 172, 236, 154, 169, 236, 158, 144, 235,
       147, 164, 236, 157, 180, 32, 84, 97, 115, 107, 32, 236, 154, 148, 236, 178, 173, 236,
       157, 132, 32, 235, 179, 180, 235, 130, 188, 32, 236, 136, 152, 32, 236, 151, 134, 236,
       138, 181, 235, 139, 136, 235, 139, 164, 46, 32, 236, 154, 148, 236, 178, 173, 236, 157,
       132, 32, 235, 179, 180, 235, 130, 184, 32, 236, 130, 172, 236, 154, 169, 236, 158, 144,
       235, 138, 148, 32, 235, 130, 180, 234, 176, 128, 32, 84, 97, 115, 107, 32, 236, 154,
       148, 236, 178, 173, 236, 157, 132, 32, 236, 160, 145, 236, 136, 152, 32, 234, 177, 176,
       235, 182, 128, 237, 150, 136, 235, 139, 164, 235, 138, 148, 32, 235, 169, 148, 236, 139,
       156, 236, 167, 128, 235, 165, 188, 32, 235, 176, 155, 234, 178, 140, 235, 144, 169, 235,
       139, 136, 235, 139, 164, 46]"

text \<open>Line 404: "Invalid input, the values allowed for "settings allow_incoming_task_requests" are
  `on` or `off`."\<close>

definition txtAllowInvalid :: "string" where
  "txtAllowInvalid =
     utf8 [236, 156, 160, 237, 154, 168, 237, 149, 152, 236, 167, 128, 32, 236, 149, 138, 236,
       157, 128, 32, 236, 158, 133, 235, 160, 165, 44, 32, 34]
       @ ''settings allow_incoming_task_requests'' @ utf8 [34, 236, 151, 144, 32, 237, 151,
       136, 236, 154, 169, 235, 144, 152, 235, 138, 148, 32, 234, 176, 146, 236, 157, 128, 32,
       96, 111, 110, 96, 32, 235, 152, 144, 235, 138, 148, 32, 96, 111, 102, 102, 96, 236, 158,
       133, 235, 139, 136, 235, 139, 164, 46]"

text \<open>Lines 409, 410: "Error saving the block_incoming setting", and the same after the prefix
  "runSettingsCommand: ".\<close>

definition txtAllowSaveError :: "string" where
  "txtAllowSaveError =
     ''block_incoming '' @ utf8 [236, 132, 164, 236, 160, 149, 32, 236, 160, 128, 236, 158,
       165, 32, 236, 152, 164, 235, 165, 152]"

definition txtAllowSaveErrorLog :: "string" where
  "txtAllowSaveErrorLog =
     ''runSettingsCommand: block_incoming '' @ utf8 [236, 132, 164, 236, 160, 149, 32, 236,
       160, 128, 236, 158, 165, 32, 236, 152, 164, 235, 165, 152]"

text \<open>Line 416: "setting `%s` is not recognised".\<close>

definition fmtUnknownSetting :: "string \<Rightarrow> string" where
  "fmtUnknownSetting a =
     ''setting '' @ utf8 [96] @ a @ utf8 [96, 32, 236, 139, 157, 235, 179, 132, 235, 144, 152,
       236, 167, 128, 32, 236, 149, 138, 236, 138, 181, 235, 139, 136, 235, 139, 164]"

subsection \<open>The string literals of the HTTP handlers (plugin.go)\<close>

text \<open>Lines 198 and 223: "@%s created a Todo in this thread"; the literal of line 223 ends in a
  full stop.\<close>

definition fmtCreatedInThread :: "string \<Rightarrow> string" where
  "fmtCreatedInThread senderName =
     ''@'' @ senderName @ utf8 [236, 157, 180, 40, 234, 176, 128, 41, 32, 236, 157, 180, 32,
       236, 138, 164, 235, 160, 136, 235, 147, 156, 236, 151, 144, 32, 84, 111, 100, 111, 235,
       165, 188, 32, 236, 131, 157, 236, 132, 177, 237, 150, 136, 236, 138, 181, 235, 139, 136,
       235, 139, 164]"

definition fmtCreatedInThreadStop :: "string \<Rightarrow> string" where
  "fmtCreatedInThreadStop senderName =
     ''@'' @ senderName @ utf8 [236, 157, 180, 40, 234, 176, 128, 41, 32, 236, 157, 180, 32,
       236, 138, 164, 235, 160, 136, 235, 147, 156, 236, 151, 144, 32, 84, 111, 100, 111, 235,
       165, 188, 32, 236, 131, 157, 236, 132, 177, 237, 150, 136, 236, 138, 181, 235, 139, 136,
       235, 139, 164, 46]"

text \<open>Line 234: "@%s has blocked Todo requests."\<close>

definition fmtReceiverBlocked :: "string \<Rightarrow> string" where
  "fmtReceiverBlocked userName =
     ''@'' @ userName @ utf8 [236, 157, 128, 40, 235, 138, 148, 41, 32, 84, 111, 100, 111, 32,
       236, 154, 148, 236, 178, 173, 236, 157, 132, 32, 236, 176, 168, 235, 139, 168, 237, 150,
       136, 236, 138, 181, 235, 139, 136, 235, 139, 164, 46]"

text \<open>Line 251: "Received a new Todo item from @%s."\<close>

definition fmtReceivedNewItemFrom :: "string \<Rightarrow> string" where
  "fmtReceivedNewItemFrom senderName =
     ''@'' @ senderName @ utf8 [40, 236, 156, 188, 41, 235, 161, 156, 235, 182, 128, 237, 132,
       176, 32, 236, 131, 136, 32, 84, 111, 100, 111, 32, 237, 149, 173, 235, 170, 169, 236,
       157, 132, 32, 235, 176, 155, 236, 149, 152, 236, 138, 181, 235, 139, 136, 235, 139, 164,
       46]"

text \<open>Line 254: "@%s sent @%s a Todo about this thread".\<close>

definition fmtSentInThread :: "string \<Rightarrow> string \<Rightarrow> string" where
  "fmtSentInThread senderName sendTo =
     ''@'' @ senderName @ utf8 [236, 157, 180, 40, 234, 176, 128, 41, 32, 64] @ sendTo
       @ utf8 [236, 151, 144, 234, 178, 140, 32, 236, 157, 180, 32, 236, 138, 164, 235, 160,
       136, 235, 147, 156, 236, 151, 144, 236, 132, 156, 32, 235, 140, 128, 237, 149, 156, 32,
       84, 111, 100, 111, 235, 165, 188, 32, 235, 179, 180, 235, 131, 136, 236, 138, 181, 235,
       139, 136, 235, 139, 164]"

text \<open>Line 308: "Daily reminder:" and two newlines.\<close>

definition txtDailyReminder :: "string" where
  "txtDailyReminder =
     utf8 [236, 157, 188, 236, 157, 188, 32, 235, 166, 172, 235, 167, 136, 236, 157, 184, 235,
       141, 148, 58, 10, 10]"

text \<open>Line 372: "@%s edited the Todo.", then "Before:" and "After:" with the two messages, a line
  each.\<close>

definition fmtEdited :: "string \<Rightarrow> string \<Rightarrow> string \<Rightarrow> string" where
  "fmtEdited userName oldMessage newMessage =
     ''@'' @ userName @ utf8 [236, 157, 180, 40, 234, 176, 128, 41, 32, 84, 111, 100, 111, 235,
       165, 188, 32, 236, 136, 152, 236, 160, 149, 237, 150, 136, 236, 138, 181, 235, 139, 136,
       235, 139, 164, 46, 10, 236, 136, 152, 236, 160, 149, 32, 236, 160, 132, 58, 10]
       @ oldMessage @ utf8 [10, 236, 136, 152, 236, 160, 149, 32, 237, 155, 132, 58, 10]
       @ newMessage"

text \<open>Line 424: "Received a new Todo from @%s."\<close>

definition fmtReceivedNewTodoFrom :: "string \<Rightarrow> string" where
  "fmtReceivedNewTodoFrom userName =
     ''@'' @ userName @ utf8 [40, 236, 156, 188, 41, 235, 161, 156, 235, 182, 128, 237, 132,
       176, 32, 236, 131, 136, 32, 84, 111, 100, 111, 235, 165, 188, 32, 235, 176, 155, 236,
       149, 152, 236, 138, 181, 235, 139, 136, 235, 139, 164, 46]"

text \<open>Line 429: "@%s removed me as the assignee of the following Todo:" and the message on the
  next line.\<close>

definition fmtUnassigned :: "string \<Rightarrow> string \<Rightarrow> string" where
  "fmtUnassigned userName issueMessage =
     ''@'' @ userName @ utf8 [40, 236, 157, 180, 41, 234, 176, 128, 32, 235, 139, 164, 236,
       157, 140, 32, 84, 111, 100, 111, 32, 235, 139, 180, 235, 139, 185, 236, 158, 144, 236,
       151, 144, 236, 132, 156, 32, 235, 130, 152, 235, 165, 188, 32, 236, 160, 156, 236, 153,
       184, 236, 139, 156, 236, 188, 176, 236, 138, 181, 235, 139, 136, 235, 139, 164, 58, 10]
       @ issueMessage"

text \<open>Line 466: "@%s accepted the Todo I sent: %s".\<close>

definition fmtAccepted :: "string \<Rightarrow> string \<Rightarrow> string" where
  "fmtAccepted userName todoMessage =
     ''@'' @ userName @ utf8 [236, 157, 180, 40, 234, 176, 128, 41, 32, 235, 130, 180, 234,
       176, 128, 32, 235, 179, 180, 235, 130, 184, 32, 84, 111, 100, 111, 235, 165, 188, 32,
       236, 136, 152, 235, 157, 189, 237, 150, 136, 236, 138, 181, 235, 139, 136, 235, 139,
       164, 58, 32] @ todoMessage"

text \<open>Line 501: "@%s completed the Todo linked to this thread".\<close>

definition fmtCompletedInThread :: "string \<Rightarrow> string" where
  "fmtCompletedInThread userName =
     ''@'' @ userName @ utf8 [236, 157, 180, 40, 234, 176, 128, 41, 32, 236, 157, 180, 32, 236,
       138, 164, 235, 160, 136, 235, 147, 156, 236, 151, 144, 32, 236, 151, 176, 234, 178, 176,
       235, 144, 156, 32, 84, 111, 100, 111, 235, 165, 188, 32, 236, 153, 132, 235, 163, 140,
       237, 150, 136, 236, 138, 181, 235, 139, 136, 235, 139, 164]"

text \<open>Line 510: "@%s completed the Todo I sent: %s".\<close>

definition fmtCompletedSent :: "string \<Rightarrow> string \<Rightarrow> string" where
  "fmtCompletedSent userName message =
     ''@'' @ userName @ utf8 [236, 157, 180, 40, 234, 176, 128, 41, 32, 235, 130, 180, 234,
       176, 128, 32, 235, 179, 180, 235, 130, 184, 32, 84, 111, 100, 111, 235, 165, 188, 32,
       236, 153, 132, 235, 163, 140, 237, 150, 136, 236, 138, 181, 235, 139, 136, 235, 139,
       164, 58, 32] @ message"

text \<open>Line 545: "@%s removed the Todo attached to this thread".\<close>

definition fmtRemovedInThread :: "string \<Rightarrow> string" where
  "fmtRemovedInThread userName =
     ''@'' @ userName @ utf8 [236, 157, 180, 40, 234, 176, 128, 41, 32, 236, 157, 180, 32, 236,
       138, 164, 235, 160, 136, 235, 147, 156, 236, 151, 144, 32, 236, 178, 168, 235, 182, 128,
       235, 144, 156, 32, 84, 111, 100, 111, 235, 165, 188, 32, 236, 160, 156, 234, 177, 176,
       237, 150, 136, 236, 138, 181, 235, 139, 136, 235, 139, 164]"

text \<open>Line 554, the wording "removed": "@%s removed the Todo I received: %s".\<close>

definition fmtRemovedReceived :: "string \<Rightarrow> string \<Rightarrow> string" where
  "fmtRemovedReceived userName message =
     ''@'' @ userName @ utf8 [236, 157, 180, 40, 234, 176, 128, 41, 32, 235, 130, 180, 234,
       176, 128, 32, 235, 176, 155, 236, 157, 128, 32, 84, 111, 100, 111, 235, 165, 188, 32,
       236, 160, 156, 234, 177, 176, 237, 150, 136, 236, 138, 181, 235, 139, 136, 235, 139,
       164, 58, 32] @ message"

text \<open>Line 556, the wording "rejected": "@%s rejected the Todo I sent: %s".\<close>

definition fmtRejectedSent :: "string \<Rightarrow> string \<Rightarrow> string" where
  "fmtRejectedSent userName message =
     ''@'' @ userName @ utf8 [236, 157, 180, 40, 234, 176, 128, 41, 32, 235, 130, 180, 234,
       176, 128, 32, 235, 179, 180, 235, 130, 184, 32, 84, 111, 100, 111, 235, 165, 188, 32,
       234, 177, 176, 236, 160, 136, 237, 150, 136, 236, 138, 181, 235, 139, 136, 235, 139,
       164, 58, 32] @ message"

text \<open>Line 601: "@%s highlighted a Todo I received."\<close>

definition fmtBumped :: "string \<Rightarrow> string" where
  "fmtBumped userName =
     ''@'' @ userName @ utf8 [236, 157, 180, 40, 234, 176, 128, 41, 32, 235, 130, 180, 234,
       176, 128, 32, 235, 176, 155, 236, 157, 128, 32, 84, 111, 100, 111, 235, 165, 188, 32,
       234, 176, 149, 236, 161, 176, 237, 150, 136, 236, 138, 181, 235, 139, 136, 235, 139,
       164, 46]"

section \<open>The world of the plugin: the List Manager, the server API, the trace\<close>

text \<open>
  The \<open>ListManager\<close> interface (plugin.go, lines 26-49). The handlers know the
  interface only, so they are verified for every implementation of it: each method is a
  function of the world \<open>'w\<close> (the stored lists, the preferences, the chat server) that
  returns its results and the new world. A method that returns \<open>(..., err error)\<close> returns
  \<open>Inl err\<close> for a non-nil error and \<open>Inr\<close> of the other results for \<open>nil\<close>.
\<close>

record 'w ListManager =
  AddIssue :: "'w \<Rightarrow> string \<Rightarrow> string \<Rightarrow> string \<Rightarrow> string \<Rightarrow> (error + Issue) \<times> 'w"
  SendIssue :: "'w \<Rightarrow> string \<Rightarrow> string \<Rightarrow> string \<Rightarrow> string \<Rightarrow> string \<Rightarrow> (error + string) \<times> 'w"
  GetIssueList :: "'w \<Rightarrow> string \<Rightarrow> string \<Rightarrow> (error + ExtendedIssue list) \<times> 'w"
  CompleteIssue :: "'w \<Rightarrow> string \<Rightarrow> string \<Rightarrow> (error + Issue \<times> string \<times> string) \<times> 'w"
  AcceptIssue :: "'w \<Rightarrow> string \<Rightarrow> string \<Rightarrow> (error + string \<times> string) \<times> 'w"
  RemoveIssue :: "'w \<Rightarrow> string \<Rightarrow> string \<Rightarrow> (error + Issue \<times> string \<times> bool \<times> string) \<times> 'w"
  PopIssue :: "'w \<Rightarrow> string \<Rightarrow> (error + Issue \<times> string) \<times> 'w"
  BumpIssue :: "'w \<Rightarrow> string \<Rightarrow> string \<Rightarrow> (error + string \<times> string \<times> string) \<times> 'w"
  EditIssue :: "'w \<Rightarrow> string \<Rightarrow> string \<Rightarrow> string \<Rightarrow> string \<Rightarrow> (error + string \<times> string \<times> string) \<times> 'w"
  ChangeAssignment :: "'w \<Rightarrow> string \<Rightarrow> string \<Rightarrow> string \<Rightarrow> (error + string \<times> string) \<times> 'w"
  GetUserName :: "'w \<Rightarrow> string \<Rightarrow> string \<times> 'w"

text \<open>
  The request structs of the HTTP handlers (plugin.go, lines 135-138, 161-166, 330-334,
  377-380, 434-436, 470-472, 514-516, 565-567). A field name carries the name of its
  request where two structs share it. The values of \<open>Properties\<close> are kept as text.
\<close>

record telemetryAPIRequest =
  Event :: string
  Properties :: "(string \<times> string) list"

record addAPIRequest =
  add_Message :: string
  add_Description :: string
  add_SendTo :: string
  add_PostID :: string

record editAPIRequest =
  edit_ID :: string
  edit_Message :: string
  edit_Description :: string

record changeAssignmentAPIRequest =
  change_ID :: string
  change_SendTo :: string

record acceptAPIRequest =
  accept_ID :: string

record completeAPIRequest =
  complete_ID :: string

record removeAPIRequest =
  remove_ID :: string

record bumpAPIRequest =
  bump_ID :: string

text \<open>
  The plugin \<open>p\<close>: its fields (plugin.go, lines 52-68), and what the handlers use of the
  rest of the package and of the server API, taken as parameters because it is declared
  in other files: the list keys and telemetry sources (constants), the
  preference and reminder store, \<open>ReplyPostBot\<close>, \<open>issuesListToString\<close>, and of the
  libraries the clock test of the daily reminder (plugin.go, lines 299-307), the error of
  writing the response, and the JSON codec: the encoding of an issue list and of the
  client configuration, and the decoding of a request body into each request struct,
  which gives an error, or \<open>None\<close> (the nil pointer, for the body \<open>null\<close>), or the
  struct. The getters read the world; the setters return the new one.
  \<open>configuration\<close> is \<open>None\<close> for a nil pointer and else holds
  \<open>HideTeamSidebar\<close>.
\<close>

record 'w Plugin =
  BotUserID :: string
  configuration :: "bool option"
  listManager :: "'w ListManager"
  MyListKey :: string
  InListKey :: string
  OutListKey :: string
  sourceCommand :: string
  sourceWebapp :: string
  GetUserByUsername :: "'w \<Rightarrow> string \<Rightarrow> error + User"
  getAllowIncomingTaskRequestsPreference :: "'w \<Rightarrow> string \<Rightarrow> error + bool"
  getReminderPreference :: "'w \<Rightarrow> string \<Rightarrow> bool"
  saveReminderPreference :: "'w \<Rightarrow> string \<Rightarrow> bool \<Rightarrow> error option \<times> 'w"
  saveAllowIncomingTaskRequestsPreference :: "'w \<Rightarrow> string \<Rightarrow> bool \<Rightarrow> error option \<times> 'w"
  getLastReminderTimeForUser :: "'w \<Rightarrow> string \<Rightarrow> error + int"
  saveLastReminderTimeForUser :: "'w \<Rightarrow> string \<Rightarrow> error option \<times> 'w"
  ReplyPostBot :: "'w \<Rightarrow> string \<Rightarrow> string \<Rightarrow> string \<Rightarrow> error option \<times> 'w"
  issuesListToString :: "ExtendedIssue list \<Rightarrow> string"
  reminderDue :: "'w \<Rightarrow> int \<Rightarrow> string \<Rightarrow> bool"
  writeFails :: "'w \<Rightarrow> string \<Rightarrow> error option"
  marshalIssues :: "ExtendedIssue list \<Rightarrow> error + string"
  marshalConfig :: "bool \<Rightarrow> error + string"
  decodeTelemetry :: "string \<Rightarrow> error + telemetryAPIRequest option"
  decodeAdd :: "string \<Rightarrow> error + addAPIRequest option"
  decodeEdit :: "string \<Rightarrow> error + editAPIRequest option"
  decodeChangeAssignment :: "string \<Rightarrow> error + changeAssignmentAPIRequest option"
  decodeAccept :: "string \<Rightarrow> error + acceptAPIRequest option"
  decodeComplete :: "string \<Rightarrow> error + completeAPIRequest option"
  decodeRemove :: "string \<Rightarrow> error + removeAPIRequest option"
  decodeBump :: "string \<Rightarrow> error + bumpAPIRequest option"

text \<open>
  Every call that leaves the handler is recorded in a trace, in the order of the calls:
  the calls of the List Manager with their arguments, and the calls of the server API,
  of the telemetry and of the HTTP response writer.
\<close>

datatype lm_call =
    CallAddIssue string string string string
  | CallSendIssue string string string string string
  | CallGetIssueList string string
  | CallCompleteIssue string string
  | CallAcceptIssue string string
  | CallRemoveIssue string string
  | CallPopIssue string
  | CallBumpIssue string string
  | CallEditIssue string string string string
  | CallChangeAssignment string string string
  | CallGetUserName string

datatype logarg = ArgString string | ArgError error

datatype body = ErrorJSON string string | Bytes string

datatype telemetry =
    TrackCommand string string
  | TrackAddIssue string string bool
  | TrackSendIssue string string bool
  | TrackCompleteIssue string
  | TrackRemoveIssue string
  | TrackAcceptIssue string
  | TrackBumpIssue string
  | TrackEditIssue string
  | TrackChangeAssignment string
  | TrackDailySummary string
  | TrackFrontend string string "(string \<times> string) list"

datatype response =
    HttpError string nat
  | HttpNotFound
  | WriteHeader nat
  | Write body

datatype event =
    LM lm_call
  | SendEphemeralPost string string string string
  | LogError string "logarg list"
  | LogDebug string "logarg list"
  | PublishWebSocketEvent string "string list" string
  | PostBotDM string string
  | PostBotCustomDM string string string string
  | CallReplyPostBot string string string
  | CallSaveReminderPreference string bool
  | CallSaveAllowIncomingTaskRequestsPreference string bool
  | CallSaveLastReminderTimeForUser string
  | Track telemetry
  | Http response
  | RuntimePanic string

record 'w st =
  world :: 'w
  trace :: "event list"

definition emit :: "event \<Rightarrow> 'w st \<Rightarrow> 'w st" where
  "emit e s = s\<lparr>trace := trace s @ [e]\<rparr>"

text \<open>A call that may change the world: the event is recorded and the world replaced.\<close>

definition call :: "event \<Rightarrow> ('w \<Rightarrow> 'a \<times> 'w) \<Rightarrow> 'w st \<Rightarrow> 'a \<times> 'w st" where
  "call e f s = (case f (world s) of (r, w') \<Rightarrow> (r, \<lparr>world = w', trace = trace s @ [e]\<rparr>))"

definition listManager_AddIssue ::
  "'w Plugin \<Rightarrow> string \<Rightarrow> string \<Rightarrow> string \<Rightarrow> string \<Rightarrow> 'w st \<Rightarrow> (error + Issue) \<times> 'w st" where
  "listManager_AddIssue p userID message description postID =
     call (LM (CallAddIssue userID message description postID))
       (\<lambda>w. AddIssue (listManager p) w userID message description postID)"

definition listManager_SendIssue ::
  "'w Plugin \<Rightarrow> string \<Rightarrow> string \<Rightarrow> string \<Rightarrow> string \<Rightarrow> string \<Rightarrow> 'w st \<Rightarrow> (error + string) \<times> 'w st" where
  "listManager_SendIssue p senderID receiverID message description postID =
     call (LM (CallSendIssue senderID receiverID message description postID))
       (\<lambda>w. SendIssue (listManager p) w senderID receiverID message description postID)"

definition listManager_GetIssueList ::
  "'w Plugin \<Rightarrow> string \<Rightarrow> string \<Rightarrow> 'w st \<Rightarrow> (error + ExtendedIssue list) \<times> 'w st" where
  "listManager_GetIssueList p userID listID =
     call (LM (CallGetIssueList userID listID)) (\<lambda>w. GetIssueList (listManager p) w userID listID)"

definition listManager_CompleteIssue ::
  "'w Plugin \<Rightarrow> string \<Rightarrow> string \<Rightarrow> 'w st \<Rightarrow> (error + Issue \<times> string \<times> string) \<times> 'w st" where
  "listManager_CompleteIssue p userID issueID =
     call (LM (CallCompleteIssue userID issueID)) (\<lambda>w. CompleteIssue (listManager p) w userID issueID)"

definition listManager_AcceptIssue ::
  "'w Plugin \<Rightarrow> string \<Rightarrow> string \<Rightarrow> 'w st \<Rightarrow> (error + string \<times> string) \<times> 'w st" where
  "listManager_AcceptIssue p userID issueID =
     call (LM (CallAcceptIssue userID issueID)) (\<lambda>w. AcceptIssue (listManager p) w userID issueID)"

definition listManager_RemoveIssue ::
  "'w Plugin \<Rightarrow> string \<Rightarrow> string \<Rightarrow> 'w st \<Rightarrow> (error + Issue \<times> string \<times> bool \<times> string) \<times> 'w st" where
  "listManager_RemoveIssue p userID issueID =
     call (LM (CallRemoveIssue userID issueID)) (\<lambda>w. RemoveIssue (listManager p) w userID issueID)"

definition listManager_PopIssue ::
  "'w Plugin \<Rightarrow> string \<Rightarrow> 'w st \<Rightarrow> (error + Issue \<times> string) \<times> 'w st" where
  "listManager_PopIssue p userID =
     call (LM (CallPopIssue userID)) (\<lambda>w. PopIssue (listManager p) w userID)"

definition listManager_BumpIssue ::
  "'w Plugin \<Rightarrow> string \<Rightarrow> string \<Rightarrow> 'w st \<Rightarrow> (error + string \<times> string \<times> string) \<times> 'w st" where
  "listManager_BumpIssue p userID issueID =
     call (LM (CallBumpIssue userID issueID)) (\<lambda>w. BumpIssue (listManager p) w userID issueID)"

definition listManager_EditIssue ::
  "'w Plugin \<Rightarrow> string \<Rightarrow> string \<Rightarrow> string \<Rightarrow> string \<Rightarrow> 'w st \<Rightarrow> (error + string \<times> string \<times> string) \<times> 'w st" where
  "listManager_EditIssue p userID issueID newMessage newDescription =
     call (LM (CallEditIssue userID issueID newMessage newDescription))
       (\<lambda>w. EditIssue (listManager p) w userID issueID newMessage newDescription)"

definition listManager_ChangeAssignment ::
  "'w Plugin \<Rightarrow> string \<Rightarrow> string \<Rightarrow> string \<Rightarrow> 'w st \<Rightarrow> (error + string \<times> string) \<times> 'w st" where
  "listManager_ChangeAssignment p issueID userID sendTo =
     call (LM (CallChangeAssignment issueID userID sendTo))
       (\<lambda>w. ChangeAssignment (listManager p) w issueID userID sendTo)"

definition listManager_GetUserName :: "'w Plugin \<Rightarrow> string \<Rightarrow> 'w st \<Rightarrow> string \<times> 'w st" where
  "listManager_GetUserName p userID =
     call (LM (CallGetUserName userID)) (\<lambda>w. GetUserName (listManager p) w userID)"

section \<open>The chat command handlers\<close>

text \<open>
  A handler returns \<open>(isUserError, err)\<close>, or it panics: \<open>args[0][0]\<close> on an empty first
  argument is an index out of range.
\<close>

datatype cmd_result = Return bool "error option" | Panic

type_synonym 'w handler = "string list \<Rightarrow> CommandArgs \<Rightarrow> 'w st \<Rightarrow> cmd_result \<times> 'w st"

text \<open>
  \<open>getSummarySetting\<close>, \<open>getAllowIncomingTaskRequestsSetting\<close>, \<open>getAllSettings\<close>
  (lines 62-81).
\<close>

definition getSummarySetting :: "bool \<Rightarrow> string" where
  "getSummarySetting flag = (if flag then summarySettingOn else summarySettingOff)"

definition getAllowIncomingTaskRequestsSetting :: "bool \<Rightarrow> string" where
  "getAllowIncomingTaskRequestsSetting flag =
     (if flag then allowIncomingSettingOn else allowIncomingSettingOff)"

definition getAllSettings :: "bool \<Rightarrow> bool \<Rightarrow> string" where
  "getAllSettings summaryFlag blockIncomingFlag =
     fmtAllSettings (getSummarySetting summaryFlag)
       (getAllowIncomingTaskRequestsSetting blockIncomingFlag)"

text \<open>
  \<open>postCommandResponse\<close> (lines 95-102): an ephemeral post of the bot to the user, in the
  channel of the command. The event holds the receiving user, and the author, channel
  and message of the post.
\<close>

definition postCommandResponse :: "'w Plugin \<Rightarrow> CommandArgs \<Rightarrow> string \<Rightarrow> 'w st \<Rightarrow> 'w st" where
  "postCommandResponse p args text =
     emit (SendEphemeralPost (UserId args) (BotUserID p) (ChannelId args) text)"

text \<open>\<open>sendRefreshEvent\<close> (plugin.go, lines 640-646).\<close>

definition WSEventRefresh :: string where
  "WSEventRefresh = ''refresh''"

definition sendRefreshEvent :: "'w Plugin \<Rightarrow> string \<Rightarrow> string list \<Rightarrow> 'w st \<Rightarrow> 'w st" where
  "sendRefreshEvent p userID listKeys = emit (PublishWebSocketEvent WSEventRefresh listKeys userID)"

text \<open>\<open>postReplyIfNeeded\<close> (plugin.go, lines 258-265).\<close>

definition postReplyIfNeeded :: "'w Plugin \<Rightarrow> string \<Rightarrow> string \<Rightarrow> string \<Rightarrow> 'w st \<Rightarrow> 'w st" where
  "postReplyIfNeeded p postID message todo s =
     (if postID \<noteq> [] then
        (case call (CallReplyPostBot postID message todo)
                (\<lambda>w. ReplyPostBot p w postID message todo) s of
           (Some err, s1) \<Rightarrow> emit (LogError (Error err) []) s1
         | (None, s1) \<Rightarrow> s1)
      else s)"

text \<open>
  \<open>runAddCommand\<close> (lines 209-256). The loop of lines 238-244 looks for the new issue in
  the list that was read back.
\<close>

fun issueIncluded :: "string \<Rightarrow> ExtendedIssue list \<Rightarrow> bool" where
  "issueIncluded newID [] = False"
| "issueIncluded newID (issue # issues) =
     (if newID = ID issue then True else issueIncluded newID issues)"

definition runAddCommand :: "'w Plugin \<Rightarrow> 'w handler" where
  "runAddCommand p args extra s =
     (let message = Join args '' '' in
      if message = [] then
        (Return False None, postCommandResponse p extra txtAddATask s)
      else
        (case listManager_AddIssue p (UserId extra) message [] [] s of
           (Inl err, s1) \<Rightarrow> (Return False (Some err), s1)
         | (Inr newIssue, s1) \<Rightarrow>
             let s2 = emit (Track (TrackAddIssue (UserId extra) (sourceCommand p) False)) s1;
                 s3 = sendRefreshEvent p (UserId extra) [MyListKey p] s2;
                 responseMessage = txtTodoAdded
             in (case listManager_GetIssueList p (UserId extra) (MyListKey p) s3 of
                   (Inl err, s4) \<Rightarrow>
                     (Return False None,
                      postCommandResponse p extra responseMessage
                        (emit (LogError (Error err) []) s4))
                 | (Inr issues, s4) \<Rightarrow>
                     let issues' =
                           (if \<not> issueIncluded (ID newIssue) issues
                            then issues @ [ExtendedIssue_of newIssue] else issues)
                     in (Return False None,
                         postCommandResponse p extra
                           (responseMessage @ listHeaderMessage @ issuesListToString p issues')
                           s4))))"

text \<open>\<open>runSendCommand\<close> (lines 156-207).\<close>

definition runSendCommand :: "'w Plugin \<Rightarrow> 'w handler" where
  "runSendCommand p args extra s =
     (if length args < 2 then
        (Return False None,
         postCommandResponse p extra (txtSendNeedsUserAndMessage @ getHelp) s)
      else
        (case args ! 0 of
           [] \<Rightarrow> (Panic, s)
         | c # cs \<Rightarrow>
             let userName = (if c = CHR ''@'' then cs else args ! 0) in
             (case GetUserByUsername p (world s) userName of
                Inl appErr \<Rightarrow>
                  (Return False None,
                   postCommandResponse p extra (txtSendInvalidUser @ getHelp) s)
              | Inr receiver \<Rightarrow>
                  if Id receiver = UserId extra then runAddCommand p (tl args) extra s
                  else
                    (case (case getAllowIncomingTaskRequestsPreference p (world s) (Id receiver) of
                             Inl err \<Rightarrow>
                               (True, emit (LogError txtPrefCheckFailed [ArgError err]) s)
                           | Inr b \<Rightarrow> (b, s)) of
                       (receiverAllowIncomingTaskRequestsPreference, s1) \<Rightarrow>
                         if \<not> receiverAllowIncomingTaskRequestsPreference then
                           (Return False None,
                            postCommandResponse p extra (fmtReceiverBlocking userName) s1)
                         else
                           let message = Join (tl args) '' '' in
                           (case listManager_SendIssue p (UserId extra) (Id receiver)
                                   message [] [] s1 of
                              (Inl err, s2) \<Rightarrow> (Return False (Some err), s2)
                            | (Inr receiverIssueID, s2) \<Rightarrow>
                                let s3 = emit (Track (TrackSendIssue (UserId extra)
                                                 (sourceCommand p) False)) s2;
                                    s4 = sendRefreshEvent p (UserId extra) [OutListKey p] s3;
                                    s5 = sendRefreshEvent p (Id receiver) [InListKey p] s4;
                                    responseMessage = fmtSentTo userName
                                in (case listManager_GetUserName p (UserId extra) s5 of
                                      (senderName, s6) \<Rightarrow>
                                        let receiverMessage = fmtReceivedRequestFrom senderName;
                                            s7 = emit (PostBotCustomDM (Id receiver)
                                                   receiverMessage message receiverIssueID) s6
                                        in (Return False None,
                                            postCommandResponse p extra responseMessage s7)))))))"

text \<open>\<open>runListCommand\<close> (lines 258-288).\<close>

definition runListCommand :: "'w Plugin \<Rightarrow> 'w handler" where
  "runListCommand p args extra s =
     (case (if length args > 0 then
              (if args ! 0 = MyFlag then Some (MyListKey p, txtMyListHeader)
               else if args ! 0 = InFlag then Some (InListKey p, txtInListHeader)
               else if args ! 0 = OutFlag then Some (OutListKey p, txtOutListHeader)
               else None)
            else Some (MyListKey p, txtMyListHeader)) of
        None \<Rightarrow> (Return True None, postCommandResponse p extra getHelp s)
      | Some (listID, responseMessage) \<Rightarrow>
          (case listManager_GetIssueList p (UserId extra) listID s of
             (Inl err, s1) \<Rightarrow> (Return False (Some err), s1)
           | (Inr issues, s1) \<Rightarrow>
               let s2 = sendRefreshEvent p (UserId extra)
                          [MyListKey p, OutListKey p, InListKey p] s1
               in (Return False None,
                   postCommandResponse p extra
                     (responseMessage @ issuesListToString p issues) s2)))"

text \<open>\<open>runPopCommand\<close> (lines 290-328).\<close>

definition runPopCommand :: "'w Plugin \<Rightarrow> 'w handler" where
  "runPopCommand p args extra s =
     (case listManager_PopIssue p (UserId extra) s of
        (Inl err, s1) \<Rightarrow>
          if Error err = ''cannot find issue'' then
            (Return False None, postCommandResponse p extra txtNothingToPop s1)
          else (Return False (Some err), s1)
      | (Inr (issue, foreignID), s1) \<Rightarrow>
          (case listManager_GetUserName p (UserId extra) s1 of
             (userName, s2) \<Rightarrow>
               let s3 = (if foreignID \<noteq> [] then
                           emit (PostBotDM foreignID (fmtPoppedSentTodo userName (Message issue)))
                             (sendRefreshEvent p foreignID [OutListKey p] s2)
                         else s2);
                   s4 = sendRefreshEvent p (UserId extra) [MyListKey p] s3;
                   responseMessage = txtPoppedTop;
                   replyMessage = fmtPoppedThreadReply userName;
                   s5 = postReplyIfNeeded p (PostID issue) replyMessage (Message issue) s4
               in (case listManager_GetIssueList p (UserId extra) (MyListKey p) s5 of
                     (Inl err, s6) \<Rightarrow>
                       (Return False None,
                        postCommandResponse p extra responseMessage
                          (emit (LogError (Error err) []) s6))
                   | (Inr issues, s6) \<Rightarrow>
                       (Return False None,
                        postCommandResponse p extra
                          (responseMessage @ listHeaderMessage @ issuesListToString p issues)
                          s6))))"

text \<open>
  \<open>runSettingsCommand\<close> (lines 330-419). The two inner switches on \<open>args[1]\<close> choose the
  flag to save and the reply; their default case returns at once.
\<close>

definition runSettingsCommand :: "'w Plugin \<Rightarrow> 'w handler" where
  "runSettingsCommand p args extra s =
     (if length args < 1 then
        (let currentSummarySetting = getReminderPreference p (world s) (UserId extra) in
         case getAllowIncomingTaskRequestsPreference p (world s) (UserId extra) of
           Inl err \<Rightarrow>
             (Return False None,
              postCommandResponse p extra (getAllSettings currentSummarySetting True)
                (emit (LogError txtPrefCheckFailed [ArgError err]) s))
         | Inr currentAllowIncomingTaskRequestsSetting \<Rightarrow>
             (Return False None,
              postCommandResponse p extra
                (getAllSettings currentSummarySetting currentAllowIncomingTaskRequestsSetting)
                s))
      else if args ! 0 = ''summary'' then
        (if length args < 2 then
           (let currentSummarySetting = getReminderPreference p (world s) (UserId extra) in
            (Return False None,
             postCommandResponse p extra (getSummarySetting currentSummarySetting) s))
         else if length args > 2 then (Return True (Some (errors_New txtTooManyArgs)), s)
         else
           (case (if args ! 1 = ''on'' then Some (True, txtSummaryNowOn)
                  else if args ! 1 = ''off'' then Some (False, txtSummaryNowOff)
                  else None) of
              None \<Rightarrow> (Return True (Some (errors_New txtSummaryInvalid)), s)
            | Some (flag, responseMessage) \<Rightarrow>
                (case call (CallSaveReminderPreference (UserId extra) flag)
                        (\<lambda>w. saveReminderPreference p w (UserId extra) flag) s of
                   (Some err, s1) \<Rightarrow>
                     (Return False (Some (errors_New txtSummarySaveError)),
                      emit (LogDebug txtSummarySaveErrorLog
                              [ArgString ''error'', ArgString (Error err)]) s1)
                 | (None, s1) \<Rightarrow>
                     (Return False None, postCommandResponse p extra responseMessage s1))))
      else if args ! 0 = ''allow_incoming_task_requests'' then
        (if length args < 2 then
           (case getAllowIncomingTaskRequestsPreference p (world s) (UserId extra) of
              Inl err \<Rightarrow>
                (Return False None,
                 postCommandResponse p extra (getAllowIncomingTaskRequestsSetting True)
                   (emit (LogError txtPrefReadFailed [ArgString (Error err)]) s))
            | Inr currentAllowIncomingTaskRequestsSetting \<Rightarrow>
                (Return False None,
                 postCommandResponse p extra
                   (getAllowIncomingTaskRequestsSetting currentAllowIncomingTaskRequestsSetting)
                   s))
         else if length args > 2 then (Return True (Some (errors_New txtTooManyArgs)), s)
         else
           (case (if args ! 1 = ''on'' then Some (True, txtAllowNowOn)
                  else if args ! 1 = ''off'' then Some (False, txtAllowNowOff)
                  else None) of
              None \<Rightarrow> (Return True (Some (errors_New txtAllowInvalid)), s)
            | Some (flag, responseMessage) \<Rightarrow>
                (case call (CallSaveAllowIncomingTaskRequestsPreference (UserId extra) flag)
                        (\<lambda>w. saveAllowIncomingTaskRequestsPreference p w (UserId extra) flag)
                        s of
                   (Some err, s1) \<Rightarrow>
                     (Return False (Some (errors_New txtAllowSaveError)),
                      emit (LogDebug txtAllowSaveErrorLog
                              [ArgString ''error'', ArgString (Error err)]) s1)
                 | (None, s1) \<Rightarrow>
                     (Return False None, postCommandResponse p extra responseMessage s1))))
      else (Return True (Some (errors_New (fmtUnknownSetting (args ! 0)))), s))"

text \<open>
  \<open>ExecuteCommand\<close> (lines 105-154). Lines 106-108 normalise the white space of the
  command and split it at the spaces; the token list \<open>stringArgs\<close> they compute is the
  input here. \<open>strings.Split\<close> returns at least one token; on no token at all the
  read of \<open>stringArgs[1]\<close> would be out of range.

  Lines 112-142 choose the handler, the arguments left for it and the command that is
  tracked; the default case of the switch (\<open>help\<close> and every unknown command) chooses
  none.
\<close>

datatype exec_result = CommandResponse | ExecPanic

definition chooseHandler ::
  "'w Plugin \<Rightarrow> string list \<Rightarrow> ('w handler \<times> string list \<times> string) option" where
  "chooseHandler p stringArgs =
     (let lengthOfArgs = length stringArgs; restOfArgs = [] in
      if lengthOfArgs = 1 then Some (runListCommand p, restOfArgs, [])
      else
        (let command = stringArgs ! 1;
             restOfArgs = (if lengthOfArgs > 2 then drop 2 stringArgs else restOfArgs)
         in if command = ''add'' then Some (runAddCommand p, restOfArgs, command)
            else if command = ''list'' then Some (runListCommand p, restOfArgs, command)
            else if command = ''pop'' then Some (runPopCommand p, restOfArgs, command)
            else if command = ''send'' then Some (runSendCommand p, restOfArgs, command)
            else if command = ''settings'' then Some (runSettingsCommand p, restOfArgs, command)
            else None))"

text \<open>Lines 143-153: the reply to what the handler returned.\<close>

definition replyToResult :: "'w Plugin \<Rightarrow> CommandArgs \<Rightarrow> cmd_result \<times> 'w st \<Rightarrow> exec_result \<times> 'w st" where
  "replyToResult p args r =
     (case r of
        (Panic, s) \<Rightarrow> (ExecPanic, s)
      | (Return isUserError None, s) \<Rightarrow> (CommandResponse, s)
      | (Return isUserError (Some err), s) \<Rightarrow>
          if isUserError then
            (CommandResponse, postCommandResponse p args (userErrorText (Error err)) s)
          else
            (CommandResponse,
             postCommandResponse p args txtUnknownError (emit (LogError (Error err) []) s)))"

definition ExecuteCommand ::
  "'w Plugin \<Rightarrow> string list \<Rightarrow> CommandArgs \<Rightarrow> 'w st \<Rightarrow> exec_result \<times> 'w st" where
  "ExecuteCommand p stringArgs args s =
     (if length stringArgs = 0 then (ExecPanic, s)
      else
        (case chooseHandler p stringArgs of
           None \<Rightarrow>
             (let command = stringArgs ! 1;
                  s1 = (if command = ''help'' then emit (Track (TrackCommand (UserId args) command)) s
                        else emit (Track (TrackCommand (UserId args) ''not found'')) s)
              in (CommandResponse, postCommandResponse p args getHelp s1))
         | Some (handler, restOfArgs, command) \<Rightarrow>
             replyToResult p args
               (handler restOfArgs args (emit (Track (TrackCommand (UserId args) command)) s))))"

section \<open>The HTTP handlers (plugin.go)\<close>

text \<open>
  What the handlers read of an \<open>*http.Request\<close>: the path, the method, the headers
  \<open>Mattermost-User-ID\<close> and \<open>X-Timezone-Offset\<close>, the query parameters \<open>list\<close> and
  \<open>reminder\<close>, and the body. A handler returns nothing; what it does is the trace and
  the world it leaves. Reading a field of a request struct that was decoded to the nil
  pointer is a runtime panic, the last event of the trace then.
\<close>

record Request =
  urlPath :: string
  httpMethod :: string
  userIDHeader :: string
  timezoneOffsetHeader :: string
  queryList :: string
  queryReminder :: string
  requestBody :: string

definition StatusBadRequest :: nat where "StatusBadRequest = 400"
definition StatusUnauthorized :: nat where "StatusUnauthorized = 401"
definition StatusNotFound :: nat where "StatusNotFound = 404"
definition StatusMethodNotAllowed :: nat where "StatusMethodNotAllowed = 405"
definition StatusInternalServerError :: nat where "StatusInternalServerError = 500"

definition nilDereference :: string where
  "nilDereference = ''invalid memory address or nil pointer dereference''"

text \<open>\<open>handleErrorWithCode\<close> (lines 661-671): the status, then the JSON object of the title and the details.\<close>

definition handleErrorWithCode :: "'w Plugin \<Rightarrow> nat \<Rightarrow> string \<Rightarrow> error \<Rightarrow> 'w st \<Rightarrow> 'w st" where
  "handleErrorWithCode p code errTitle err s =
     emit (Http (Write (ErrorJSON errTitle (Error err)))) (emit (Http (WriteHeader code)) s)"

text \<open>The log entry and the error response that follow a failed JSON decoding, in every handler.\<close>

definition decodeFailed :: "'w Plugin \<Rightarrow> error \<Rightarrow> 'w st \<Rightarrow> 'w st" where
  "decodeFailed p err s =
     handleErrorWithCode p StatusBadRequest ''Unable to decode JSON'' err
       (emit (LogError (''Unable to decode JSON err='' @ Error err) []) s)"

definition notAuthorized :: "'w st \<Rightarrow> 'w st" where
  "notAuthorized s = emit (Http (HttpError ''Not authorized'' StatusUnauthorized)) s"

text \<open>\<open>handleTelemetry\<close> (lines 140-159).\<close>

definition handleTelemetry :: "'w Plugin \<Rightarrow> Request \<Rightarrow> 'w st \<Rightarrow> 'w st" where
  "handleTelemetry p r s =
     (let userID = userIDHeader r in
      if userID = [] then notAuthorized s
      else
        (case decodeTelemetry p (requestBody r) of
           Inl err \<Rightarrow> decodeFailed p err s
         | Inr None \<Rightarrow> emit (RuntimePanic nilDereference) s
         | Inr (Some telemetryRequest) \<Rightarrow>
             if Event telemetryRequest \<noteq> [] then
               emit (Track (TrackFrontend userID (Event telemetryRequest)
                              (Properties telemetryRequest))) s
             else s))"

text \<open>
  \<open>handleAdd\<close> (lines 168-256). Lines 187-201 and 212-225 add the issue to the list of
  the caller; they differ in the reply, which ends in a full stop in the second.
\<close>

definition handleAdd :: "'w Plugin \<Rightarrow> Request \<Rightarrow> 'w st \<Rightarrow> 'w st" where
  "handleAdd p r s =
     (let userID = userIDHeader r in
      if userID = [] then notAuthorized s
      else
        (case decodeAdd p (requestBody r) of
           Inl err \<Rightarrow> decodeFailed p err s
         | Inr decoded \<Rightarrow>
             (case listManager_GetUserName p userID s of
                (senderName, s1) \<Rightarrow>
                  (case decoded of
                     None \<Rightarrow> emit (RuntimePanic nilDereference) s1
                   | Some addRequest \<Rightarrow>
                       if add_SendTo addRequest = [] then
                         (case listManager_AddIssue p userID (add_Message addRequest)
                                 (add_Description addRequest) (add_PostID addRequest) s1 of
                            (Inl err, s2) \<Rightarrow>
                              handleErrorWithCode p StatusInternalServerError
                                ''Unable to add issue'' err
                                (emit (LogError (''Unable to add issue err='' @ Error err) []) s2)
                          | (Inr newIssue, s2) \<Rightarrow>
                              let s3 = emit (Track (TrackAddIssue userID (sourceWebapp p)
                                               (add_PostID addRequest \<noteq> []))) s2;
                                  s4 = sendRefreshEvent p userID [MyListKey p] s3;
                                  replyMessage = fmtCreatedInThread senderName
                              in postReplyIfNeeded p (add_PostID addRequest) replyMessage
                                   (add_Message addRequest) s4)
                       else
                         (case GetUserByUsername p (world s1) (add_SendTo addRequest) of
                            Inl appErr \<Rightarrow>
                              handleErrorWithCode p StatusInternalServerError
                                ''Unable to find user'' appErr
                                (emit (LogError (''username not valid, err='' @ Error appErr) [])
                                   s1)
                          | Inr receiver \<Rightarrow>
                              if Id receiver = userID then
                                (case listManager_AddIssue p userID (add_Message addRequest)
                                        (add_Description addRequest) (add_PostID addRequest)
                                        s1 of
                                   (Inl err, s2) \<Rightarrow>
                                     handleErrorWithCode p StatusInternalServerError
                                       ''Unable to add issue'' err
                                       (emit (LogError (''Unable to add issue err='' @ Error err)
                                                []) s2)
                                 | (Inr newIssue, s2) \<Rightarrow>
                                     let s3 = emit (Track (TrackAddIssue userID (sourceWebapp p)
                                                      (add_PostID addRequest \<noteq> []))) s2;
                                         s4 = sendRefreshEvent p userID [MyListKey p] s3;
                                         replyMessage = fmtCreatedInThreadStop senderName
                                     in postReplyIfNeeded p (add_PostID addRequest) replyMessage
                                          (add_Message addRequest) s4)
                              else
                                (case (case getAllowIncomingTaskRequestsPreference p (world s1)
                                              (Id receiver) of
                                         Inl err \<Rightarrow>
                                           (True,
                                            emit (LogError
                                              ''Error when getting allow incoming task request preference, err=''
                                              [ArgError err]) s1)
                                       | Inr b \<Rightarrow> (b, s1)) of
                                   (receiverAllowIncomingTaskRequestsPreference, s2) \<Rightarrow>
                                     if \<not> receiverAllowIncomingTaskRequestsPreference then
                                       (let replyMessage =
                                              fmtReceiverBlocked (Username receiver)
                                        in emit (PostBotDM userID replyMessage) s2)
                                     else
                                       (case listManager_SendIssue p userID (Id receiver)
                                               (add_Message addRequest)
                                               (add_Description addRequest)
                                               (add_PostID addRequest) s2 of
                                          (Inl err, s3) \<Rightarrow>
                                            handleErrorWithCode p StatusInternalServerError
                                              ''Unable to send issue'' err
                                              (emit (LogError
                                                 (''Unable to send issue err='' @ Error err) [])
                                                 s3)
                                        | (Inr issueID, s3) \<Rightarrow>
                                            let s4 = emit (Track (TrackSendIssue userID
                                                       (sourceWebapp p)
                                                       (add_PostID addRequest \<noteq> []))) s3;
                                                s5 = sendRefreshEvent p userID [OutListKey p] s4;
                                                s6 = sendRefreshEvent p (Id receiver)
                                                       [InListKey p] s5;
                                                receiverMessage =
                                                  fmtReceivedNewItemFrom senderName;
                                                s7 = emit (PostBotCustomDM (Id receiver)
                                                       receiverMessage (add_Message addRequest)
                                                       issueID) s6;
                                                replyMessage =
                                                  fmtSentInThread senderName
                                                    (add_SendTo addRequest)
                                            in postReplyIfNeeded p (add_PostID addRequest)
                                                 replyMessage (add_Message addRequest) s7)))))))"

text \<open>
  \<open>handleList\<close> (lines 267-328). Lines 317-327, the encoding and writing of the list,
  end both the path that considers the daily reminder and the path that skips it.
\<close>

definition writeIssues :: "'w Plugin \<Rightarrow> ExtendedIssue list \<Rightarrow> 'w st \<Rightarrow> 'w st" where
  "writeIssues p issues s =
     (case marshalIssues p issues of
        Inl err \<Rightarrow>
          handleErrorWithCode p StatusInternalServerError ''Unable marhsal issues list to json''
            err (emit (LogError (''Unable marhsal issues list to json err='' @ Error err) []) s)
      | Inr issuesJSON \<Rightarrow>
          (let s1 = emit (Http (Write (Bytes issuesJSON))) s in
           case writeFails p (world s) issuesJSON of
             Some err \<Rightarrow>
               emit (LogError (''Unable to write json response err='' @ Error err) []) s1
           | None \<Rightarrow> s1))"

definition handleList :: "'w Plugin \<Rightarrow> Request \<Rightarrow> 'w st \<Rightarrow> 'w st" where
  "handleList p r s =
     (let userID = userIDHeader r in
      if userID = [] then notAuthorized s
      else
        (let listInput = queryList r;
             listID = (if listInput = OutFlag then OutListKey p
                       else if listInput = InFlag then InListKey p
                       else MyListKey p)
         in case listManager_GetIssueList p userID listID s of
              (Inl err, s1) \<Rightarrow>
                handleErrorWithCode p StatusInternalServerError ''Unable to get issues for user''
                  err (emit (LogError (''Unable to get issues for user err='' @ Error err) []) s1)
            | (Inr issues, s1) \<Rightarrow>
                if length issues > 0 \<and> queryReminder r = ''true''
                   \<and> getReminderPreference p (world s1) userID then
                  (case getLastReminderTimeForUser p (world s1) userID of
                     Inl err \<Rightarrow>
                       handleErrorWithCode p StatusInternalServerError
                         ''Unable to send reminder'' err
                         (emit (LogError (''Unable to send reminder err='' @ Error err) []) s1)
                   | Inr lastReminderAt \<Rightarrow>
                       if reminderDue p (world s1) lastReminderAt (timezoneOffsetHeader r) then
                         (let s2 = emit (PostBotDM userID
                                      (txtDailyReminder @ issuesListToString p issues)) s1;
                              s3 = emit (Track (TrackDailySummary userID)) s2
                          in case call (CallSaveLastReminderTimeForUser userID)
                                    (\<lambda>w. saveLastReminderTimeForUser p w userID) s3 of
                               (Some err, s4) \<Rightarrow>
                                 writeIssues p issues
                                   (emit (LogError
                                      (''Unable to save last reminder for user err='' @ Error err)
                                      []) s4)
                             | (None, s4) \<Rightarrow> writeIssues p issues s4)
                       else writeIssues p issues s1)
                else writeIssues p issues s1))"

text \<open>\<open>handleEdit\<close> (lines 336-375).\<close>

definition handleEdit :: "'w Plugin \<Rightarrow> Request \<Rightarrow> 'w st \<Rightarrow> 'w st" where
  "handleEdit p r s =
     (let userID = userIDHeader r in
      if userID = [] then notAuthorized s
      else
        (case decodeEdit p (requestBody r) of
           Inl err \<Rightarrow> decodeFailed p err s
         | Inr None \<Rightarrow> emit (RuntimePanic nilDereference) s
         | Inr (Some editRequest) \<Rightarrow>
             (case listManager_EditIssue p userID (edit_ID editRequest)
                     (edit_Message editRequest) (edit_Description editRequest) s of
                (Inl err, s1) \<Rightarrow>
                  handleErrorWithCode p StatusInternalServerError ''Unable to edit issue'' err
                    (emit (LogError (''Unable to edit message: err='' @ Error err) []) s1)
              | (Inr (foreignUserID, list, oldMessage), s1) \<Rightarrow>
                  let s2 = emit (Track (TrackEditIssue userID)) s1;
                      s3 = sendRefreshEvent p userID [list] s2
                  in if foreignUserID \<noteq> [] then
                       (let listKeys = (if list = OutListKey p then [MyListKey p, InListKey p]
                                        else [OutListKey p]);
                            s4 = sendRefreshEvent p foreignUserID listKeys s3
                        in case listManager_GetUserName p userID s4 of
                             (userName, s5) \<Rightarrow>
                               let message = fmtEdited userName oldMessage
                                               (edit_Message editRequest)
                               in emit (PostBotDM foreignUserID message) s5)
                     else s3)))"

text \<open>\<open>handleChangeAssignment\<close> (lines 382-432).\<close>

definition handleChangeAssignment :: "'w Plugin \<Rightarrow> Request \<Rightarrow> 'w st \<Rightarrow> 'w st" where
  "handleChangeAssignment p r s =
     (let userID = userIDHeader r in
      if userID = [] then notAuthorized s
      else
        (case decodeChangeAssignment p (requestBody r) of
           Inl err \<Rightarrow> decodeFailed p err s
         | Inr None \<Rightarrow> emit (RuntimePanic nilDereference) s
         | Inr (Some changeRequest) \<Rightarrow>
             if change_SendTo changeRequest = [] then
               emit (Http (HttpError ''No user specified'' StatusBadRequest)) s
             else
               (case GetUserByUsername p (world s) (change_SendTo changeRequest) of
                  Inl appErr \<Rightarrow>
                    handleErrorWithCode p StatusNotFound ''Unable to find user'' appErr
                      (emit (LogError (''username not valid, err='' @ Error appErr) []) s)
                | Inr receiver \<Rightarrow>
                    (case listManager_ChangeAssignment p (change_ID changeRequest) userID
                            (Id receiver) s of
                       (Inl err, s1) \<Rightarrow>
                         handleErrorWithCode p StatusInternalServerError
                           ''Unable to change the assignment'' err
                           (emit (LogError
                              (''Unable to change the assignment of an issue: err='' @ Error err)
                              []) s1)
                     | (Inr (issueMessage, oldOwner), s1) \<Rightarrow>
                         let s2 = emit (Track (TrackChangeAssignment userID)) s1;
                             s3 = sendRefreshEvent p userID [MyListKey p, OutListKey p] s2
                         in case listManager_GetUserName p userID s3 of
                              (userName, s4) \<Rightarrow>
                                let s5 = (if Id receiver \<noteq> userID then
                                            (let s' = sendRefreshEvent p (Id receiver)
                                                        [InListKey p] s4;
                                                 receiverMessage = fmtReceivedNewTodoFrom userName
                                             in emit (PostBotCustomDM (Id receiver)
                                                  receiverMessage issueMessage
                                                  (change_ID changeRequest)) s')
                                          else s4)
                                in if oldOwner \<noteq> [] then
                                     (let s6 = sendRefreshEvent p oldOwner
                                                 [InListKey p, MyListKey p] s5;
                                          oldOwnerMessage = fmtUnassigned userName issueMessage
                                      in emit (PostBotDM oldOwner oldOwnerMessage) s6)
                                   else s5))))"

text \<open>\<open>handleAccept\<close> (lines 438-468).\<close>

definition handleAccept :: "'w Plugin \<Rightarrow> Request \<Rightarrow> 'w st \<Rightarrow> 'w st" where
  "handleAccept p r s =
     (let userID = userIDHeader r in
      if userID = [] then notAuthorized s
      else
        (case decodeAccept p (requestBody r) of
           Inl err \<Rightarrow> decodeFailed p err s
         | Inr None \<Rightarrow> emit (RuntimePanic nilDereference) s
         | Inr (Some acceptRequest) \<Rightarrow>
             (case listManager_AcceptIssue p userID (accept_ID acceptRequest) s of
                (Inl err, s1) \<Rightarrow>
                  handleErrorWithCode p StatusInternalServerError ''Unable to accept issue'' err
                    (emit (LogError (''Unable to accept issue err='' @ Error err) []) s1)
              | (Inr (todoMessage, sender), s1) \<Rightarrow>
                  let s2 = emit (Track (TrackAcceptIssue userID)) s1;
                      s3 = sendRefreshEvent p userID [MyListKey p, InListKey p] s2;
                      s4 = sendRefreshEvent p sender [OutListKey p] s3
                  in case listManager_GetUserName p userID s4 of
                       (userName, s5) \<Rightarrow>
                         let message = fmtAccepted userName todoMessage
                         in emit (PostBotDM sender message) s5)))"

text \<open>\<open>handleComplete\<close> (lines 474-512).\<close>

definition handleComplete :: "'w Plugin \<Rightarrow> Request \<Rightarrow> 'w st \<Rightarrow> 'w st" where
  "handleComplete p r s =
     (let userID = userIDHeader r in
      if userID = [] then notAuthorized s
      else
        (case decodeComplete p (requestBody r) of
           Inl err \<Rightarrow> decodeFailed p err s
         | Inr None \<Rightarrow> emit (RuntimePanic nilDereference) s
         | Inr (Some completeRequest) \<Rightarrow>
             (case listManager_CompleteIssue p userID (complete_ID completeRequest) s of
                (Inl err, s1) \<Rightarrow>
                  handleErrorWithCode p StatusInternalServerError ''Unable to complete issue'' err
                    (emit (LogError (''Unable to complete issue err='' @ Error err) []) s1)
              | (Inr (issue, foreignID, listToUpdate), s1) \<Rightarrow>
                  let s2 = sendRefreshEvent p userID [listToUpdate] s1;
                      s3 = emit (Track (TrackCompleteIssue userID)) s2
                  in case listManager_GetUserName p userID s3 of
                       (userName, s4) \<Rightarrow>
                         let replyMessage = fmtCompletedInThread userName;
                             s5 = postReplyIfNeeded p (PostID issue) replyMessage (Message issue)
                                    s4
                         in if foreignID = [] then s5
                            else
                              (let s6 = sendRefreshEvent p foreignID [OutListKey p] s5;
                                   message = fmtCompletedSent userName (Message issue)
                               in emit (PostBotDM foreignID message) s6))))"

text \<open>\<open>handleRemove\<close> (lines 518-563).\<close>

definition handleRemove :: "'w Plugin \<Rightarrow> Request \<Rightarrow> 'w st \<Rightarrow> 'w st" where
  "handleRemove p r s =
     (let userID = userIDHeader r in
      if userID = [] then notAuthorized s
      else
        (case decodeRemove p (requestBody r) of
           Inl err \<Rightarrow> decodeFailed p err s
         | Inr None \<Rightarrow> emit (RuntimePanic nilDereference) s
         | Inr (Some removeRequest) \<Rightarrow>
             (case listManager_RemoveIssue p userID (remove_ID removeRequest) s of
                (Inl err, s1) \<Rightarrow>
                  handleErrorWithCode p StatusInternalServerError ''Unable to remove issue'' err
                    (emit (LogError (''Unable to remove issue, err='' @ Error err) []) s1)
              | (Inr (issue, foreignID, isSender, listToUpdate), s1) \<Rightarrow>
                  let s2 = sendRefreshEvent p userID [listToUpdate] s1;
                      s3 = emit (Track (TrackRemoveIssue userID)) s2
                  in case listManager_GetUserName p userID s3 of
                       (userName, s4) \<Rightarrow>
                         let replyMessage = fmtRemovedInThread userName;
                             s5 = postReplyIfNeeded p (PostID issue) replyMessage (Message issue)
                                    s4
                         in if foreignID = [] then s5
                            else
                              (let list = InListKey p;
                                   message = fmtRemovedReceived userName (Message issue);
                                   message = (if isSender
                                              then fmtRejectedSent userName (Message issue)
                                              else message);
                                   list = (if isSender then OutListKey p else list);
                                   s6 = sendRefreshEvent p foreignID [list] s5
                               in emit (PostBotDM foreignID message) s6))))"

text \<open>\<open>handleBump\<close> (lines 569-603).\<close>

definition handleBump :: "'w Plugin \<Rightarrow> Request \<Rightarrow> 'w st \<Rightarrow> 'w st" where
  "handleBump p r s =
     (let userID = userIDHeader r in
      if userID = [] then notAuthorized s
      else
        (case decodeBump p (requestBody r) of
           Inl err \<Rightarrow> decodeFailed p err s
         | Inr None \<Rightarrow> emit (RuntimePanic nilDereference) s
         | Inr (Some bumpRequest) \<Rightarrow>
             (case listManager_BumpIssue p userID (bump_ID bumpRequest) s of
                (Inl err, s1) \<Rightarrow>
                  handleErrorWithCode p StatusInternalServerError ''Unable to bump issue'' err
                    (emit (LogError (''Unable to bump issue, err='' @ Error err) []) s1)
              | (Inr (todoMessage, foreignUser, foreignIssueID), s1) \<Rightarrow>
                  let s2 = emit (Track (TrackBumpIssue userID)) s1
                  in if foreignUser = [] then s2
                     else
                       (let s3 = sendRefreshEvent p foreignUser [InListKey p] s2
                        in case listManager_GetUserName p userID s3 of
                             (userName, s4) \<Rightarrow>
                               let message = fmtBumped userName
                               in emit (PostBotCustomDM foreignUser message todoMessage
                                          foreignIssueID) s4))))"

text \<open>\<open>handleConfig\<close> (lines 606-638).\<close>

definition handleConfig :: "'w Plugin \<Rightarrow> Request \<Rightarrow> 'w st \<Rightarrow> 'w st" where
  "handleConfig p r s =
     (let userID = userIDHeader r in
      if userID = [] then notAuthorized s
      else if httpMethod r \<noteq> ''GET'' then
        emit (Http (HttpError ''Invalid request method'' StatusMethodNotAllowed)) s
      else
        (case configuration p of
           None \<Rightarrow> s
         | Some hideTeamSidebar \<Rightarrow>
             (case marshalConfig p hideTeamSidebar of
                Inl err \<Rightarrow>
                  handleErrorWithCode p StatusInternalServerError
                    ''Unable to marshal plugin configuration to json'' err
                    (emit (LogError
                       (''Unable to marshal plugin configuration to json err='' @ Error err) [])
                       s)
              | Inr configJSON \<Rightarrow>
                  (let s1 = emit (Http (Write (Bytes configJSON))) s in
                   case writeFails p (world s) configJSON of
                     Some err \<Rightarrow>
                       emit (LogError (''Unable to write json response err='' @ Error err) []) s1
                   | None \<Rightarrow> s1))))"

text \<open>\<open>ServeHTTP\<close> (lines 108-133).\<close>

definition ServeHTTP :: "'w Plugin \<Rightarrow> Request \<Rightarrow> 'w st \<Rightarrow> 'w st" where
  "ServeHTTP p r s =
     (if urlPath r = ''/add'' then handleAdd p r s
      else if urlPath r = ''/list'' then handleList p r s
      else if urlPath r = ''/remove'' then handleRemove p r s
      else if urlPath r = ''/complete'' then handleComplete p r s
      else if urlPath r = ''/accept'' then handleAccept p r s
      else if urlPath r = ''/bump'' then handleBump p r s
      else if urlPath r = ''/telemetry'' then handleTelemetry p r s
      else if urlPath r = ''/config'' then handleConfig p r s
      else if urlPath r = ''/edit'' then handleEdit p r s
      else if urlPath r = ''/change_assignment'' then handleChangeAssignment p r s
      else emit (Http HttpNotFound) s)"

section \<open>Reading a trace\<close>

text \<open>
  The calls of the List Manager in a trace, in order, and the operation a call invokes.
  \<open>GetIssueList\<close> and \<open>GetUserName\<close> are the operations that read (the first never
  changes the stored lists, the second looks a name up); the other nine change the
  lists.
\<close>

datatype lm_op =
    OpAddIssue | OpSendIssue | OpGetIssueList | OpCompleteIssue | OpAcceptIssue
  | OpRemoveIssue | OpPopIssue | OpBumpIssue | OpEditIssue | OpChangeAssignment
  | OpGetUserName


fun lmCalls :: "event list \<Rightarrow> lm_call list" where
  "lmCalls [] = []"
| "lmCalls (LM c # es) = c # lmCalls es"
| "lmCalls (e # es) = lmCalls es"

definition calls :: "'w st \<Rightarrow> lm_call list" where
  "calls s = lmCalls (trace s)"




text \<open>At most one operation, and only one of those allowed.\<close>

definition atMostOneOf :: "lm_op list \<Rightarrow> lm_op list \<Rightarrow> bool" where
  "atMostOneOf allowed ops = (length ops \<le> 1 \<and> set ops \<subseteq> set allowed)"





text \<open>An execution starts in a world \<open>w\<close> with nothing recorded.\<close>

definition fresh :: "'w \<Rightarrow> 'w st" where
  "fresh w = \<lparr>world = w, trace = []\<rparr>"


section \<open>A plugin to evaluate the handlers on\<close>

text \<open>
  A plugin over a world that only counts the changes made to it. Its List Manager holds
  no issue: adding and sending succeed, popping finds nothing, every list is empty and
  the other operations fail. Every user name resolves to the user of that name, the
  preferences are switched on, and a request body decodes to the request whose first
  field it is. The closed examples below evaluate the handlers on it, or
  on a variant of it.
\<close>

definition notFound :: error where
  "notFound = errors_New ''cannot find issue''"

definition emptyListManager :: "nat ListManager" where
  "emptyListManager =
     \<lparr>AddIssue = (\<lambda>w userID message description postID.
        (Inr \<lparr>ID = ''issue-1'', Message = message, Description = description,
              CreateAt = 0, PostID = postID\<rparr>, Suc w)),
      SendIssue = (\<lambda>w senderID receiverID message description postID. (Inr ''issue-2'', Suc w)),
      GetIssueList = (\<lambda>w userID listID. (Inr [], w)),
      CompleteIssue = (\<lambda>w userID issueID. (Inl notFound, w)),
      AcceptIssue = (\<lambda>w userID issueID. (Inl notFound, w)),
      RemoveIssue = (\<lambda>w userID issueID. (Inl notFound, w)),
      PopIssue = (\<lambda>w userID. (Inl notFound, w)),
      BumpIssue = (\<lambda>w userID issueID. (Inl notFound, w)),
      EditIssue = (\<lambda>w userID issueID newMessage newDescription. (Inl notFound, w)),
      ChangeAssignment = (\<lambda>w issueID userID sendTo. (Inl notFound, w)),
      GetUserName = (\<lambda>w userID. (userID, w))\<rparr>"

definition examplePlugin :: "nat Plugin" where
  "examplePlugin =
     \<lparr>BotUserID = ''bot'',
      configuration = Some False,
      listManager = emptyListManager,
      MyListKey = ''my-list'',
      InListKey = ''in-list'',
      OutListKey = ''out-list'',
      sourceCommand = ''command'',
      sourceWebapp = ''webapp'',
      GetUserByUsername = (\<lambda>w name. Inr \<lparr>Id = name, Username = name\<rparr>),
      getAllowIncomingTaskRequestsPreference = (\<lambda>w userID. Inr True),
      getReminderPreference = (\<lambda>w userID. True),
      saveReminderPreference = (\<lambda>w userID flag. (None, Suc w)),
      saveAllowIncomingTaskRequestsPreference = (\<lambda>w userID flag. (None, Suc w)),
      getLastReminderTimeForUser = (\<lambda>w userID. Inr 0),
      saveLastReminderTimeForUser = (\<lambda>w userID. (None, Suc w)),
      ReplyPostBot = (\<lambda>w postID message todo. (None, w)),
      issuesListToString = (\<lambda>issues. concat (map Message issues)),
      reminderDue = (\<lambda>w lastReminderAt offset. False),
      writeFails = (\<lambda>w b. None),
      marshalIssues = (\<lambda>issues. Inr (concat (map Message issues))),
      marshalConfig = (\<lambda>hide. Inr (if hide then ''true'' else ''false'')),
      decodeTelemetry = (\<lambda>b. Inr (Some \<lparr>Event = b, Properties = []\<rparr>)),
      decodeAdd = (\<lambda>b. Inr (Some \<lparr>add_Message = b, add_Description = [], add_SendTo = [],
                                  add_PostID = []\<rparr>)),
      decodeEdit = (\<lambda>b. Inr (Some \<lparr>edit_ID = b, edit_Message = [], edit_Description = []\<rparr>)),
      decodeChangeAssignment = (\<lambda>b. Inr (Some \<lparr>change_ID = b, change_SendTo = []\<rparr>)),
      decodeAccept = (\<lambda>b. Inr (Some \<lparr>accept_ID = b\<rparr>)),
      decodeComplete = (\<lambda>b. Inr (Some \<lparr>complete_ID = b\<rparr>)),
      decodeRemove = (\<lambda>b. Inr (Some \<lparr>remove_ID = b\<rparr>)),
      decodeBump = (\<lambda>b. Inr (Some \<lparr>bump_ID = b\<rparr>))\<rparr>"

definition alice :: CommandArgs where
  "alice = \<lparr>UserId = ''alice'', ChannelId = ''town-square'', Command = ''/todo''\<rparr>"

definition start :: "nat st" where
  "start = \<lparr>world = 0, trace = []\<rparr>"

definition request :: "string \<Rightarrow> string \<Rightarrow> Request" where
  "request path b =
     \<lparr>urlPath = path, httpMethod = ''POST'', userIDHeader = ''alice'',
      timezoneOffsetHeader = [], queryList = [], queryReminder = [], requestBody = b\<rparr>"

text \<open>The same plugin over a store that is down: every operation that can fail does.\<close>

definition storeDown :: error where
  "storeDown = GoError ''*store.Error'' ''store unavailable''"

definition failingPlugin :: "nat Plugin" where
  "failingPlugin =
     examplePlugin\<lparr>listManager :=
       \<lparr>AddIssue = (\<lambda>w userID message description postID. (Inl storeDown, w)),
        SendIssue = (\<lambda>w senderID receiverID message description postID. (Inl storeDown, w)),
        GetIssueList = (\<lambda>w userID listID. (Inl storeDown, w)),
        CompleteIssue = (\<lambda>w userID issueID. (Inl storeDown, w)),
        AcceptIssue = (\<lambda>w userID issueID. (Inl storeDown, w)),
        RemoveIssue = (\<lambda>w userID issueID. (Inl storeDown, w)),
        PopIssue = (\<lambda>w userID. (Inl storeDown, w)),
        BumpIssue = (\<lambda>w userID issueID. (Inl storeDown, w)),
        EditIssue = (\<lambda>w userID issueID newMessage newDescription. (Inl storeDown, w)),
        ChangeAssignment = (\<lambda>w issueID userID sendTo. (Inl storeDown, w)),
        GetUserName = (\<lambda>w userID. (userID, w))\<rparr>\<rparr>"

text \<open>
  Variants of the plugin: every request body asks to send to the given user name; every
  receiver has switched incoming requests off; removing an issue succeeds on an issue
  linked to an issue of \<open>bob\<close>.
\<close>

definition sendingTo :: "string \<Rightarrow> nat Plugin \<Rightarrow> nat Plugin" where
  "sendingTo name p =
     p\<lparr>decodeAdd := (\<lambda>b. Inr (Some \<lparr>add_Message = b, add_Description = [],
                                          add_SendTo = name, add_PostID = []\<rparr>)),
       decodeChangeAssignment := (\<lambda>b. Inr (Some \<lparr>change_ID = b, change_SendTo = name\<rparr>))\<rparr>"



definition milk :: Issue where
  "milk = \<lparr>ID = ''issue-1'', Message = ''milk'', Description = [], CreateAt = 0, PostID = []\<rparr>"

definition linkedPlugin :: "bool \<Rightarrow> nat Plugin" where
  "linkedPlugin isSender =
     examplePlugin\<lparr>listManager :=
       emptyListManager\<lparr>RemoveIssue := (\<lambda>w userID issueID.
         (Inr (milk, ''bob'', isSender, if isSender then ''out-list'' else ''in-list''),
          Suc w))\<rparr>\<rparr>"

section \<open>Reading the trace of a handler\<close>

text \<open>
  The calls of the List Manager that a handler adds to the trace are read off its text:
  each effect adds its own calls, and a branch of the handler adds the calls of the
  branch taken.
\<close>

lemma lmCalls_append: "lmCalls (xs @ ys) = lmCalls xs @ lmCalls ys"
  by (induction xs rule: lmCalls.induct) simp_all

lemma call_eq:
  "call e f s = (fst (f (world s)), \<lparr>world = snd (f (world s)), trace = trace s @ [e]\<rparr>)"
  by (simp add: call_def split: prod.splits)

lemma world_fresh: "world (fresh w) = w"
  by (simp add: fresh_def)

lemma calls_fresh: "calls (fresh w) = []"
  by (simp add: calls_def fresh_def)

lemma calls_emit: "calls (emit e s) = calls s @ lmCalls [e]"
  by (simp add: calls_def emit_def lmCalls_append)

lemma calls_call: "calls (snd (call e f s)) = calls s @ lmCalls [e]"
  by (simp add: calls_def call_eq lmCalls_append)

lemma calls_effects:
  "calls (postCommandResponse p a t s) = calls s"
  "calls (sendRefreshEvent p u l s) = calls s"
  "calls (postReplyIfNeeded p i m t s) = calls s"
  "calls (handleErrorWithCode p c ti err s) = calls s"
  "calls (decodeFailed p err s) = calls s"
  "calls (notAuthorized s) = calls s"
  "calls (writeIssues p is s) = calls s"
  by (simp_all add: postCommandResponse_def sendRefreshEvent_def postReplyIfNeeded_def
        handleErrorWithCode_def decodeFailed_def notAuthorized_def writeIssues_def
        calls_emit calls_call case_prod_unfold Let_def split: option.splits sum.splits)

lemma calls_listManager:
  "calls (snd (listManager_AddIssue p u m d i s)) = calls s @ [CallAddIssue u m d i]"
  "calls (snd (listManager_SendIssue p u v m d i s)) = calls s @ [CallSendIssue u v m d i]"
  "calls (snd (listManager_GetIssueList p u l s)) = calls s @ [CallGetIssueList u l]"
  "calls (snd (listManager_CompleteIssue p u i s)) = calls s @ [CallCompleteIssue u i]"
  "calls (snd (listManager_AcceptIssue p u i s)) = calls s @ [CallAcceptIssue u i]"
  "calls (snd (listManager_RemoveIssue p u i s)) = calls s @ [CallRemoveIssue u i]"
  "calls (snd (listManager_PopIssue p u s)) = calls s @ [CallPopIssue u]"
  "calls (snd (listManager_BumpIssue p u i s)) = calls s @ [CallBumpIssue u i]"
  "calls (snd (listManager_EditIssue p u i m d s)) = calls s @ [CallEditIssue u i m d]"
  "calls (snd (listManager_ChangeAssignment p i u v s)) = calls s @ [CallChangeAssignment i u v]"
  "calls (snd (listManager_GetUserName p u s)) = calls s @ [CallGetUserName u]"
  by (simp_all add: listManager_AddIssue_def listManager_SendIssue_def
        listManager_GetIssueList_def listManager_CompleteIssue_def listManager_AcceptIssue_def
        listManager_RemoveIssue_def listManager_PopIssue_def listManager_BumpIssue_def
        listManager_EditIssue_def listManager_ChangeAssignment_def listManager_GetUserName_def
        calls_call)

text \<open>The world after an effect.\<close>

lemma world_effects:
  "world (emit e s) = world s"
  "world (snd (call e f s)) = snd (f (world s))"
  "world (postCommandResponse p a t s) = world s"
  "world (sendRefreshEvent p u l s) = world s"
  "world (handleErrorWithCode p c ti err s) = world s"
  "world (decodeFailed p err s) = world s"
  "world (notAuthorized s) = world s"
  "world (snd (listManager_GetUserName p u s)) = snd (GetUserName (listManager p) (world s) u)"
  by (simp_all add: emit_def call_eq postCommandResponse_def sendRefreshEvent_def
        handleErrorWithCode_def decodeFailed_def notAuthorized_def listManager_GetUserName_def)

text \<open>A function of a branching term is the branching of the function.\<close>

lemmas branch_calls =
  if_distrib [of calls] sum.case_distrib [of calls] option.case_distrib [of calls]
  list.case_distrib [of calls]
  if_distrib [of snd] sum.case_distrib [of snd] option.case_distrib [of snd]
  list.case_distrib [of snd]
  if_distrib [of fst] sum.case_distrib [of fst] option.case_distrib [of fst]
  list.case_distrib [of fst]

lemma same_branches:
  "(case x of Inl a \<Rightarrow> c | Inr b \<Rightarrow> c) = c"
  "(case y of None \<Rightarrow> c | Some b \<Rightarrow> c) = c"
  "(case z of [] \<Rightarrow> c | h # t \<Rightarrow> c) = c"
  by (simp_all split: sum.splits option.splits list.splits)

lemmas calls_simps =
  calls_fresh calls_emit calls_effects calls_listManager branch_calls same_branches
  case_prod_unfold Let_def









lemma atMostOneOf_mono:
  "atMostOneOf allowed ops \<Longrightarrow> set allowed \<subseteq> set allowed' \<Longrightarrow> atMostOneOf allowed' ops"
  by (auto simp add: atMostOneOf_def)












subsection \<open>The calls of each chat command\<close>

lemma calls_runAddCommand:
  "calls (snd (runAddCommand p args extra s)) =
     (if Join args '' '' = [] then calls s
      else case fst (listManager_AddIssue p (UserId extra) (Join args '' '') [] [] s) of
             Inl err \<Rightarrow> calls s @ [CallAddIssue (UserId extra) (Join args '' '') [] []]
           | Inr newIssue \<Rightarrow>
               calls s @ [CallAddIssue (UserId extra) (Join args '' '') [] [],
                          CallGetIssueList (UserId extra) (MyListKey p)])"
  by (simp add: runAddCommand_def calls_simps
        cong: if_cong sum.case_cong option.case_cong list.case_cong)

lemma calls_runListCommand:
  "calls (snd (runListCommand p args extra s)) =
     (if args = [] \<or> args ! 0 = ''my'' then
        calls s @ [CallGetIssueList (UserId extra) (MyListKey p)]
      else if args ! 0 = ''in'' then calls s @ [CallGetIssueList (UserId extra) (InListKey p)]
      else if args ! 0 = ''out'' then calls s @ [CallGetIssueList (UserId extra) (OutListKey p)]
      else calls s)"
  by (simp add: runListCommand_def calls_simps MyFlag_def InFlag_def OutFlag_def
        cong: if_cong sum.case_cong option.case_cong list.case_cong)



subsection \<open>The calls of the send command\<close>




subsection \<open>The operations of each chat command that change the lists\<close>


subsection \<open>The operations of each HTTP handler that change the lists\<close>












subsection \<open>The calls and the responses of each HTTP handler\<close>



section \<open>The pop command and the error of an empty list\<close>

text \<open>
  C1. Whenever \<open>PopIssue\<close> returns an error, the pop command looks at the text of the
  error only. If the text is exactly \<open>cannot find issue\<close>, whatever the type of the
  error, the handler posts the message that there is no Todo to remove and returns no
  error, so that the dispatcher adds nothing: no user error and no internal error is
  reported. For every other error the handler returns the error with the user-error flag
  off, and the dispatcher escalates it as an internal error: it logs the text and posts
  the unknown-error message.
\<close>

theorem pop_not_found_by_message:
  "PopIssue (listManager p) (world s) (UserId extra) = (Inl err, w') \<Longrightarrow>
   runPopCommand p args extra s =
     (if Error err = ''cannot find issue''
      then (Return False None,
            \<lparr>world = w', trace = trace s @ [LM (CallPopIssue (UserId extra)),
               SendEphemeralPost (UserId extra) (BotUserID p) (ChannelId extra) txtNothingToPop]\<rparr>)
      else (Return False (Some err),
            \<lparr>world = w', trace = trace s @ [LM (CallPopIssue (UserId extra))]\<rparr>)) \<and>
   ExecuteCommand p (trigger # ''pop'' # rest) extra s =
     (CommandResponse,
      \<lparr>world = w',
       trace = trace s @
         [Track (TrackCommand (UserId extra) ''pop''), LM (CallPopIssue (UserId extra))] @
         (if Error err = ''cannot find issue''
          then [SendEphemeralPost (UserId extra) (BotUserID p) (ChannelId extra) txtNothingToPop]
          else [LogError (Error err) [],
                SendEphemeralPost (UserId extra) (BotUserID p) (ChannelId extra)
                  txtUnknownError])\<rparr>)"
  by (simp add: runPopCommand_def ExecuteCommand_def chooseHandler_def replyToResult_def
        listManager_PopIssue_def call_def emit_def postCommandResponse_def Let_def)

theorem pop_not_found_by_message_witness:
  "PopIssue (listManager examplePlugin) (world start) (UserId alice) = (Inl notFound, 0) \<and>
   ExecuteCommand examplePlugin [''/todo'', ''pop''] alice start =
     (CommandResponse,
      \<lparr>world = 0,
       trace = [Track (TrackCommand ''alice'' ''pop''), LM (CallPopIssue ''alice''),
          SendEphemeralPost ''alice'' ''bot'' ''town-square'' txtNothingToPop]\<rparr>)"
  using pop_not_found_by_message [of examplePlugin start alice notFound 0 "[]" "''/todo''" "[]"]
  by (simp add: examplePlugin_def emptyListManager_def start_def alice_def notFound_def
        errors_New_def)

section \<open>The dispatcher and the error of a handler\<close>

text \<open>
  C2. Whenever the handler chosen for a chat command returns a non-nil error, the
  dispatcher decides by the boolean flag the handler returned with it. If the flag marks a
  user error, the reply is the text of the error (after \<open>__Error: \<close>) followed by the
  hint to run \<open>/todo help\<close>, and nothing is logged. Otherwise the text of the error is
  logged and the reply is the unknown-error apology. There is no third outcome.
\<close>

theorem dispatcher_classifies_error:
  "stringArgs \<noteq> [] \<Longrightarrow>
   chooseHandler p stringArgs = Some (handler, restOfArgs, command) \<Longrightarrow>
   handler restOfArgs args (emit (Track (TrackCommand (UserId args) command)) s)
     = (Return isUserError (Some err), s') \<Longrightarrow>
   ExecuteCommand p stringArgs args s =
     (CommandResponse,
      if isUserError
      then s'\<lparr>trace := trace s' @
             [SendEphemeralPost (UserId args) (BotUserID p) (ChannelId args)
                (userErrorText (Error err))]\<rparr>
      else s'\<lparr>trace := trace s' @
             [LogError (Error err) [],
              SendEphemeralPost (UserId args) (BotUserID p) (ChannelId args)
                txtUnknownError]\<rparr>) \<and>
   (\<exists>hint1 hint2.
      userErrorText (Error err) = ''__Error: '' @ Error err @ hint1 @ ''/todo help'' @ hint2)"
proof (intro conjI)
  assume "stringArgs \<noteq> []"
    and "chooseHandler p stringArgs = Some (handler, restOfArgs, command)"
    and "handler restOfArgs args (emit (Track (TrackCommand (UserId args) command)) s)
           = (Return isUserError (Some err), s')"
  then show "ExecuteCommand p stringArgs args s =
     (CommandResponse,
      if isUserError
      then s'\<lparr>trace := trace s' @
             [SendEphemeralPost (UserId args) (BotUserID p) (ChannelId args)
                (userErrorText (Error err))]\<rparr>
      else s'\<lparr>trace := trace s' @
             [LogError (Error err) [],
              SendEphemeralPost (UserId args) (BotUserID p) (ChannelId args)
                txtUnknownError]\<rparr>)"
    by (simp add: ExecuteCommand_def replyToResult_def postCommandResponse_def emit_def)
next
  have "userErrorText (Error err) =
          ''__Error: '' @ Error err @ take 29 (drop 9 (userErrorText [])) @ ''/todo help''
            @ drop 48 (userErrorText [])"
    by (simp add: userErrorText_def utf8_def)
  then show "\<exists>hint1 hint2.
      userErrorText (Error err) = ''__Error: '' @ Error err @ hint1 @ ''/todo help'' @ hint2"
    by blast
qed

theorem dispatcher_classifies_error_witness:
  "ExecuteCommand examplePlugin [''/todo'', ''settings'', ''volume''] alice start =
     (CommandResponse,
      \<lparr>world = 0,
       trace = [Track (TrackCommand ''alice'' ''settings''),
          SendEphemeralPost ''alice'' ''bot'' ''town-square''
            (userErrorText (fmtUnknownSetting ''volume''))]\<rparr>) \<and>
   ExecuteCommand failingPlugin [''/todo'', ''add'', ''milk''] alice start =
     (CommandResponse,
      \<lparr>world = 0,
       trace = [Track (TrackCommand ''alice'' ''add''),
          LM (CallAddIssue ''alice'' ''milk'' [] []),
          LogError ''store unavailable'' [],
          SendEphemeralPost ''alice'' ''bot'' ''town-square'' txtUnknownError]\<rparr>)"
  using dispatcher_classifies_error [of "[''/todo'', ''settings'', ''volume'']" examplePlugin
      "runSettingsCommand examplePlugin" "[''volume'']" "''settings''" alice start True
      "errors_New (fmtUnknownSetting ''volume'')"
      "\<lparr>world = 0, trace = [Track (TrackCommand ''alice'' ''settings'')]\<rparr>"]
    dispatcher_classifies_error [of "[''/todo'', ''add'', ''milk'']" failingPlugin
      "runAddCommand failingPlugin" "[''milk'']" "''add''" alice start False storeDown
      "\<lparr>world = 0, trace = [Track (TrackCommand ''alice'' ''add''),
          LM (CallAddIssue ''alice'' ''milk'' [] [])]\<rparr>"]
  by (simp add: chooseHandler_def runSettingsCommand_def runAddCommand_def
        listManager_AddIssue_def call_def emit_def examplePlugin_def failingPlugin_def
        alice_def start_def storeDown_def errors_New_def)

section \<open>The List Manager operations of a chat command\<close>




section \<open>The send command, the user directory and the preference of the receiver\<close>




text \<open>
  The HTTP add handler guards \<open>SendIssue\<close> in the same way (plugin.go, lines 228-237):
  with the preference of the receiver switched off it reads the caller's name and tells
  the caller, in a direct message of the bot, that the receiver has blocked requests.
\<close>

lemma handleAdd_blocked:
  "userIDHeader r \<noteq> [] \<Longrightarrow>
   decodeAdd p (requestBody r) = Inr (Some q) \<Longrightarrow>
   add_SendTo q \<noteq> [] \<Longrightarrow>
   GetUserName (listManager p) w (userIDHeader r) = (senderName, w1) \<Longrightarrow>
   GetUserByUsername p w1 (add_SendTo q) = Inr receiver \<Longrightarrow>
   Id receiver \<noteq> userIDHeader r \<Longrightarrow>
   getAllowIncomingTaskRequestsPreference p w1 (Id receiver) = Inr False \<Longrightarrow>
   handleAdd p r (fresh w) =
     \<lparr>world = w1,
      trace = [LM (CallGetUserName (userIDHeader r)),
         PostBotDM (userIDHeader r) (fmtReceiverBlocked (Username receiver))]\<rparr>"
  by (simp add: handleAdd_def fresh_def listManager_GetUserName_def call_def emit_def Let_def)

section \<open>The List Manager operation of an HTTP request\<close>




section \<open>The notification after removing a linked issue\<close>

text \<open>
  C6. When \<open>RemoveIssue\<close> succeeds and returns a non-empty foreign user, the remove
  handler ends with a refresh event and a direct message of the bot to that user, and
  \<open>isSender\<close> chooses both: if it is true the Out list is refreshed and the message
  has the wording "rejected" (line 556), else the In list is refreshed and the message
  has the wording "removed" (line 554). The two wordings differ. Before that the
  handler refreshes the list of the caller that \<open>RemoveIssue\<close> named, tracks the removal,
  reads the caller's name and replies in the thread of the issue if it has one.
\<close>

theorem remove_notifies_by_isSender:
  "userIDHeader r \<noteq> [] \<Longrightarrow>
   decodeRemove p (requestBody r) = Inr (Some q) \<Longrightarrow>
   RemoveIssue (listManager p) w (userIDHeader r) (remove_ID q)
     = (Inr (issue, foreignID, isSender, listToUpdate), w1) \<Longrightarrow>
   GetUserName (listManager p) w1 (userIDHeader r) = (userName, w2) \<Longrightarrow>
   foreignID \<noteq> [] \<Longrightarrow>
   handleRemove p r (fresh w) =
     emit (PostBotDM foreignID
             (if isSender then fmtRejectedSent userName (Message issue)
              else fmtRemovedReceived userName (Message issue)))
       (emit (PublishWebSocketEvent WSEventRefresh
                [if isSender then OutListKey p else InListKey p] foreignID)
          (postReplyIfNeeded p (PostID issue) (fmtRemovedInThread userName) (Message issue)
             \<lparr>world = w2,
              trace = [LM (CallRemoveIssue (userIDHeader r) (remove_ID q)),
                 PublishWebSocketEvent WSEventRefresh [listToUpdate] (userIDHeader r),
                 Track (TrackRemoveIssue (userIDHeader r)),
                 LM (CallGetUserName (userIDHeader r))]\<rparr>)) \<and>
   fmtRejectedSent userName (Message issue) \<noteq> fmtRemovedReceived userName (Message issue)"
  by (simp add: handleRemove_def fresh_def listManager_RemoveIssue_def
        listManager_GetUserName_def call_def emit_def sendRefreshEvent_def Let_def
        fmtRejectedSent_def fmtRemovedReceived_def utf8_def)

theorem remove_notifies_by_isSender_witness:
  "handleRemove (linkedPlugin True) (request ''/remove'' ''issue-1'') (fresh 0) =
     \<lparr>world = 1,
      trace = [LM (CallRemoveIssue ''alice'' ''issue-1''),
         PublishWebSocketEvent ''refresh'' [''out-list''] ''alice'',
         Track (TrackRemoveIssue ''alice''),
         LM (CallGetUserName ''alice''),
         PublishWebSocketEvent ''refresh'' [''out-list''] ''bob'',
         PostBotDM ''bob'' (fmtRejectedSent ''alice'' ''milk'')]\<rparr> \<and>
   handleRemove (linkedPlugin False) (request ''/remove'' ''issue-1'') (fresh 0) =
     \<lparr>world = 1,
      trace = [LM (CallRemoveIssue ''alice'' ''issue-1''),
         PublishWebSocketEvent ''refresh'' [''in-list''] ''alice'',
         Track (TrackRemoveIssue ''alice''),
         LM (CallGetUserName ''alice''),
         PublishWebSocketEvent ''refresh'' [''in-list''] ''bob'',
         PostBotDM ''bob'' (fmtRemovedReceived ''alice'' ''milk'')]\<rparr>"
  using remove_notifies_by_isSender
      [of "request ''/remove'' ''issue-1''" "linkedPlugin True" "\<lparr>remove_ID = ''issue-1''\<rparr>" 0
          milk "''bob''" True "''out-list''" 1 "''alice''" 1]
    remove_notifies_by_isSender
      [of "request ''/remove'' ''issue-1''" "linkedPlugin False" "\<lparr>remove_ID = ''issue-1''\<rparr>" 0
          milk "''bob''" False "''in-list''" 1 "''alice''" 1]
  by (simp add: linkedPlugin_def examplePlugin_def emptyListManager_def request_def milk_def
        postReplyIfNeeded_def emit_def WSEventRefresh_def)

section \<open>The add command without a message\<close>

text \<open>
  C7, as the code has it. When the arguments of the add command join to the empty
  message, no issue is created: \<open>AddIssue\<close> is not invoked and the world is left as it
  was. The failure is not surfaced as an error, though: the handler posts the prompt to
  add a task and returns no error with the user-error flag off, so the dispatcher reports
  neither a user error nor an internal error.
\<close>

theorem empty_add_is_prompted:
  "Join args '' '' = [] \<Longrightarrow>
   runAddCommand p args extra s =
     (Return False None,
      s\<lparr>trace := trace s @
         [SendEphemeralPost (UserId extra) (BotUserID p) (ChannelId extra) txtAddATask]\<rparr>) \<and>
   ExecuteCommand p (trigger # ''add'' # args) extra s =
     (CommandResponse,
      s\<lparr>trace := trace s @
         [Track (TrackCommand (UserId extra) ''add''),
          SendEphemeralPost (UserId extra) (BotUserID p) (ChannelId extra) txtAddATask]\<rparr>)"
  by (simp add: runAddCommand_def ExecuteCommand_def chooseHandler_def replyToResult_def
        postCommandResponse_def emit_def Let_def)

theorem empty_add_is_prompted_witness:
  "Join [] '' '' = [] \<and>
   ExecuteCommand examplePlugin [''/todo'', ''add''] alice start =
     (CommandResponse,
      \<lparr>world = 0,
       trace = [Track (TrackCommand ''alice'' ''add''),
          SendEphemeralPost ''alice'' ''bot'' ''town-square'' txtAddATask]\<rparr>)"
  using empty_add_is_prompted [of "[]" examplePlugin alice start "''/todo''"]
  by (simp add: examplePlugin_def alice_def start_def)

theorem empty_add_returns_no_error:
  "fst (runAddCommand examplePlugin [] alice start) = Return False None \<and>
   trace (snd (ExecuteCommand examplePlugin [''/todo'', ''add''] alice start)) =
     [Track (TrackCommand ''alice'' ''add''),
      SendEphemeralPost ''alice'' ''bot'' ''town-square'' txtAddATask]"
  by (simp add: runAddCommand_def ExecuteCommand_def chooseHandler_def replyToResult_def
        postCommandResponse_def emit_def Let_def examplePlugin_def alice_def start_def)

section \<open>The list selected by the list command and by the list request\<close>

text \<open>
  C8. The list command reads one list through \<open>GetIssueList\<close>: the In list for the flag
  \<open>in\<close>, the Out list for \<open>out\<close>, and the My list for \<open>my\<close> and for no flag. Every
  other flag makes it post the help text and return the user-error flag with no error,
  without any call of the List Manager. The HTTP list handler reads the Out list for the
  query value \<open>out\<close>, the In list for \<open>in\<close>, and the My list for every other value.
\<close>

theorem list_flag_selects_list:
  "calls (snd (runListCommand p args extra (fresh w))) =
     (if args = [] \<or> args ! 0 = ''my'' then [CallGetIssueList (UserId extra) (MyListKey p)]
      else if args ! 0 = ''in'' then [CallGetIssueList (UserId extra) (InListKey p)]
      else if args ! 0 = ''out'' then [CallGetIssueList (UserId extra) (OutListKey p)]
      else []) \<and>
   (args \<noteq> [] \<and> args ! 0 \<noteq> ''my'' \<and> args ! 0 \<noteq> ''in'' \<and> args ! 0 \<noteq> ''out'' \<longrightarrow>
      runListCommand p args extra s =
        (Return True None,
         s\<lparr>trace := trace s @
            [SendEphemeralPost (UserId extra) (BotUserID p) (ChannelId extra) getHelp]\<rparr>)) \<and>
   (userIDHeader r \<noteq> [] \<longrightarrow>
      calls (handleList p r (fresh w)) =
        [CallGetIssueList (userIDHeader r)
           (if queryList r = ''out'' then OutListKey p
            else if queryList r = ''in'' then InListKey p
            else MyListKey p)])"
proof (intro conjI impI)
  show "calls (snd (runListCommand p args extra (fresh w))) =
     (if args = [] \<or> args ! 0 = ''my'' then [CallGetIssueList (UserId extra) (MyListKey p)]
      else if args ! 0 = ''in'' then [CallGetIssueList (UserId extra) (InListKey p)]
      else if args ! 0 = ''out'' then [CallGetIssueList (UserId extra) (OutListKey p)]
      else [])"
    by (simp add: calls_runListCommand calls_fresh)
next
  assume "args \<noteq> [] \<and> args ! 0 \<noteq> ''my'' \<and> args ! 0 \<noteq> ''in'' \<and> args ! 0 \<noteq> ''out''"
  then show "runListCommand p args extra s =
        (Return True None,
         s\<lparr>trace := trace s @
            [SendEphemeralPost (UserId extra) (BotUserID p) (ChannelId extra) getHelp]\<rparr>)"
    by (simp add: runListCommand_def MyFlag_def InFlag_def OutFlag_def postCommandResponse_def
          emit_def)
next
  assume "userIDHeader r \<noteq> []"
  then show "calls (handleList p r (fresh w)) =
        [CallGetIssueList (userIDHeader r)
           (if queryList r = ''out'' then OutListKey p
            else if queryList r = ''in'' then InListKey p
            else MyListKey p)]"
    by (simp add: handleList_def calls_simps calls_call OutFlag_def InFlag_def
          cong: if_cong sum.case_cong option.case_cong)
qed

theorem list_flag_selects_list_witness:
  "calls (snd (runListCommand examplePlugin [''in''] alice (fresh 0))) =
     [CallGetIssueList ''alice'' ''in-list''] \<and>
   runListCommand examplePlugin [''all''] alice start =
     (Return True None,
      \<lparr>world = 0, trace = [SendEphemeralPost ''alice'' ''bot'' ''town-square'' getHelp]\<rparr>) \<and>
   calls (handleList examplePlugin ((request ''/list'' [])\<lparr>queryList := ''everything''\<rparr>)
      (fresh 0)) = [CallGetIssueList ''alice'' ''my-list'']"
  using list_flag_selects_list [of examplePlugin "[''in'']" alice 0 start "request ''/list'' []"]
    list_flag_selects_list [of examplePlugin "[''all'']" alice 0 start
      "(request ''/list'' [])\<lparr>queryList := ''everything''\<rparr>"]
  by (simp add: examplePlugin_def alice_def start_def request_def)

section \<open>Sending to oneself\<close>

text \<open>
  C9. When the receiver that the user directory returns is the caller, both paths add the
  issue to the caller's own list and never invoke \<open>SendIssue\<close>. The send command runs
  the add command on the arguments after the user name: its calls of the List Manager are
  none for an empty message, and else \<open>AddIssue\<close> for the caller, followed by reading
  the list back when the issue was added. The HTTP add handler calls \<open>GetUserName\<close> and
  then \<open>AddIssue\<close> for the caller with the fields of the request.
\<close>

theorem self_send_degrades_to_add:
  "(2 \<le> length args \<and> args ! 0 \<noteq> [] \<and>
    GetUserByUsername p w
      (if hd (args ! 0) = CHR ''@'' then tl (args ! 0) else args ! 0) = Inr receiver \<and>
    Id receiver = UserId extra \<longrightarrow>
      runSendCommand p args extra (fresh w) = runAddCommand p (tl args) extra (fresh w) \<and>
      calls (snd (runSendCommand p args extra (fresh w))) =
        (if Join (tl args) '' '' = [] then []
         else case fst (AddIssue (listManager p) w (UserId extra) (Join (tl args) '' '') [] []) of
                Inl err \<Rightarrow> [CallAddIssue (UserId extra) (Join (tl args) '' '') [] []]
              | Inr newIssue \<Rightarrow>
                  [CallAddIssue (UserId extra) (Join (tl args) '' '') [] [],
                   CallGetIssueList (UserId extra) (MyListKey p)])) \<and>
   (userIDHeader r \<noteq> [] \<and> decodeAdd p (requestBody r) = Inr (Some q) \<and>
    add_SendTo q \<noteq> [] \<and>
    GetUserByUsername p (snd (GetUserName (listManager p) w (userIDHeader r))) (add_SendTo q)
      = Inr receiver' \<and>
    Id receiver' = userIDHeader r \<longrightarrow>
      calls (handleAdd p r (fresh w)) =
        [CallGetUserName (userIDHeader r),
         CallAddIssue (userIDHeader r) (add_Message q) (add_Description q) (add_PostID q)])"
proof (intro conjI impI)
  assume a: "2 \<le> length args \<and> args ! 0 \<noteq> [] \<and>
    GetUserByUsername p w
      (if hd (args ! 0) = CHR ''@'' then tl (args ! 0) else args ! 0) = Inr receiver \<and>
    Id receiver = UserId extra"
  then show same: "runSendCommand p args extra (fresh w) = runAddCommand p (tl args) extra (fresh w)"
    by (cases "args ! 0")
       (simp_all add: runSendCommand_def fresh_def split del: if_split cong: if_cong)
  show "calls (snd (runSendCommand p args extra (fresh w))) =
        (if Join (tl args) '' '' = [] then []
         else case fst (AddIssue (listManager p) w (UserId extra) (Join (tl args) '' '') [] []) of
                Inl err \<Rightarrow> [CallAddIssue (UserId extra) (Join (tl args) '' '') [] []]
              | Inr newIssue \<Rightarrow>
                  [CallAddIssue (UserId extra) (Join (tl args) '' '') [] [],
                   CallGetIssueList (UserId extra) (MyListKey p)])"
    by (simp add: same calls_runAddCommand calls_fresh listManager_AddIssue_def call_eq
          world_fresh cong: sum.case_cong)
next
  assume "userIDHeader r \<noteq> [] \<and> decodeAdd p (requestBody r) = Inr (Some q) \<and>
    add_SendTo q \<noteq> [] \<and>
    GetUserByUsername p (snd (GetUserName (listManager p) w (userIDHeader r))) (add_SendTo q)
      = Inr receiver' \<and>
    Id receiver' = userIDHeader r"
  then show "calls (handleAdd p r (fresh w)) =
        [CallGetUserName (userIDHeader r),
         CallAddIssue (userIDHeader r) (add_Message q) (add_Description q) (add_PostID q)]"
    by (simp add: handleAdd_def calls_simps world_effects world_fresh
          cong: sum.case_cong option.case_cong)
qed

theorem self_send_degrades_to_add_witness:
  "calls (snd (runSendCommand examplePlugin [''@alice'', ''milk''] alice (fresh 0))) =
     [CallAddIssue ''alice'' ''milk'' [] [], CallGetIssueList ''alice'' ''my-list''] \<and>
   calls (handleAdd (sendingTo ''alice'' examplePlugin) (request ''/add'' ''milk'') (fresh 0)) =
     [CallGetUserName ''alice'', CallAddIssue ''alice'' ''milk'' [] []]"
  using self_send_degrades_to_add
    [of "[''@alice'', ''milk'']" examplePlugin 0 "\<lparr>Id = ''alice'', Username = ''alice''\<rparr>" alice,
     THEN conjunct1, THEN mp, THEN conjunct2]
    self_send_degrades_to_add
    [of _ "sendingTo ''alice'' examplePlugin" 0 _ _ "request ''/add'' ''milk''"
        "\<lparr>add_Message = ''milk'', add_Description = [], add_SendTo = ''alice'', add_PostID = []\<rparr>"
        "\<lparr>Id = ''alice'', Username = ''alice''\<rparr>",
     THEN conjunct2, THEN mp]
  by (simp add: examplePlugin_def emptyListManager_def sendingTo_def alice_def request_def)

section \<open>Requests without a user\<close>

text \<open>
  C10. Every handler that \<open>ServeHTTP\<close> reaches reads the header \<open>Mattermost-User-ID\<close>
  first. For every request to one of the ten paths in which the header is empty, the only
  effect is the response \<open>401 Not authorized\<close>: no operation of the List Manager is
  invoked and the world is unchanged.
\<close>

theorem unauthorized_request_changes_nothing:
  "userIDHeader r = [] \<Longrightarrow>
   urlPath r \<in> {''/add'', ''/list'', ''/remove'', ''/complete'', ''/accept'', ''/bump'',
                 ''/telemetry'', ''/config'', ''/edit'', ''/change_assignment''} \<Longrightarrow>
   ServeHTTP p r s = s\<lparr>trace := trace s @ [Http (HttpError ''Not authorized'' 401)]\<rparr>"
  by (auto simp add: ServeHTTP_def handleAdd_def handleList_def handleRemove_def
        handleComplete_def handleAccept_def handleBump_def handleTelemetry_def
        handleConfig_def handleEdit_def handleChangeAssignment_def notAuthorized_def
        StatusUnauthorized_def emit_def)

theorem unauthorized_request_changes_nothing_witness:
  "ServeHTTP examplePlugin ((request ''/complete'' ''issue-1'')\<lparr>userIDHeader := []\<rparr>) start =
     \<lparr>world = 0, trace = [Http (HttpError ''Not authorized'' 401)]\<rparr>"
  using unauthorized_request_changes_nothing
    [of "(request ''/complete'' ''issue-1'')\<lparr>userIDHeader := []\<rparr>" examplePlugin start]
  by (simp add: request_def start_def)

end
